theory Spec2Isabelle
  imports Complex_Main
begin

section \<open>ShoreSquad: location resolver, weather normalizer, distance\<close>

text \<open>
  A shallow embedding of the parts of \<^verbatim>\<open>src/js/app.js\<close> that resolve the user's
  location, fetch and normalize the NEA weather data, and compute distances.

  Conventions of the embedding.
  \<^item> A JavaScript number is a \<open>real\<close> that stands for a finite double; the infinities
    are outside the model, and \<open>NaN\<close> is \<open>None\<close> where the code can produce it. Values
    read from a payload are compared and rounded to integers as they are
    (\<open>Math.round\<close> is \<open>\<lfloor>x + 1/2\<rfloor>\<close>). Where the code computes with \<open>+\<close>, \<open>-\<close>, \<open>*\<close>,
    \<open>/\<close> or \<^verbatim>\<open>Math.sqrt\<close>, the exact result is rounded to a double by \<open>fl\<close>.
  \<^item> A JSON payload is typed after the shape the NEA API documents. A property whose
    absence the code can observe (it throws, or a default is used) is an \<open>option\<close>,
    \<open>None\<close> standing for \<open>undefined\<close>; leaf values have their documented type.
  \<^item> A thrown exception is a value \<open>Inl e\<close> of a sum type; a \<^verbatim>\<open>try/catch\<close> is a
    case distinction on it. A promise is the sum it settles with: \<open>Inr\<close> resolved,
    \<open>Inl\<close> rejected.
  \<^item> The clock (\<^verbatim>\<open>Date.now()\<close>, \<^verbatim>\<open>new Date()\<close>) and \<^verbatim>\<open>Math.random()\<close> are oracles
    of an environment, read through counters that are passed along as state.
  \<^item> An icon is the list of the Unicode code points of the source's string literal.
\<close>

subsection \<open>Numbers, strings and errors\<close>

datatype js_error =
    TypeError
  | ReferenceError
  | SyntaxError
  | NetworkError
  | Error string
  | StatusError string nat

text \<open>
  \<open>StatusError prefix status\<close> is \<^verbatim>\<open>new Error(`${prefix}${response.status}`)\<close>.
\<close>

type_synonym glyph = "nat list"

definition Math_round :: "real \<Rightarrow> int" where
  "Math_round x = \<lfloor>x + 1 / 2\<rfloor>"

subsection \<open>Double arithmetic\<close>

text \<open>
  IEEE 754 binary64 rounding, to nearest with ties to even: \<open>ulp x\<close> is the spacing of
  the doubles in the binade of \<open>x\<close> (53 significant bits), and \<open>fl x\<close> the multiple of
  \<open>ulp x\<close> nearest to \<open>x\<close>. The exponent range is unbounded: overflow to infinity and
  the subnormal numbers are not modelled.
\<close>

definition round_half_even :: "real \<Rightarrow> int" where
  "round_half_even y =
     (let f = \<lfloor>y\<rfloor>; d = y - of_int f
      in if d < 1 / 2 then f else if d > 1 / 2 then f + 1 else if even f then f else f + 1)"

definition ulp :: "real \<Rightarrow> real" where
  "ulp x = 2 powr (of_int \<lfloor>log 2 \<bar>x\<bar>\<rfloor> - 52)"

definition fl :: "real \<Rightarrow> real" where
  "fl x = (if x = 0 then 0 else sgn x * (of_int (round_half_even (\<bar>x\<bar> / ulp x)) * ulp x))"

text \<open>
  The arithmetic a JavaScript engine computes with: the rounding of the exact result
  of \<open>+\<close>, \<open>-\<close>, \<open>*\<close>, \<open>/\<close> and \<^verbatim>\<open>Math.sqrt\<close> (which IEEE 754 requires to be correctly
  rounded), the constant \<^verbatim>\<open>Math.PI\<close>, and the functions \<^verbatim>\<open>Math.sin\<close>, \<^verbatim>\<open>Math.cos\<close> and
  \<^verbatim>\<open>Math.atan2\<close>, which ECMAScript leaves to the implementation to approximate.
\<close>

record arithmetic =
  fp_round :: "real \<Rightarrow> real"
  fp_pi :: real
  fp_sin :: "real \<Rightarrow> real"
  fp_cos :: "real \<Rightarrow> real"
  fp_atan2 :: "real \<Rightarrow> real \<Rightarrow> real"

definition fadd :: "arithmetic \<Rightarrow> real \<Rightarrow> real \<Rightarrow> real" where
  "fadd A x y = fp_round A (x + y)"

definition fsub :: "arithmetic \<Rightarrow> real \<Rightarrow> real \<Rightarrow> real" where
  "fsub A x y = fp_round A (x - y)"

definition fmul :: "arithmetic \<Rightarrow> real \<Rightarrow> real \<Rightarrow> real" where
  "fmul A x y = fp_round A (x * y)"

definition fdiv :: "arithmetic \<Rightarrow> real \<Rightarrow> real \<Rightarrow> real" where
  "fdiv A x y = fp_round A (x / y)"

text \<open>\<^verbatim>\<open>Math.sqrt(x)\<close>: \<open>NaN\<close> for a negative \<open>x\<close>.\<close>

definition Math_sqrt :: "arithmetic \<Rightarrow> real \<Rightarrow> real option" where
  "Math_sqrt A x = (if x < 0 then None else Some (fp_round A (sqrt x)))"

text \<open>\<^verbatim>\<open>Math.PI\<close>, the double nearest to \<open>\<pi>\<close>: 3.141592653589793.\<close>

definition double_pi :: real where
  "double_pi = 884279719003555 / 281474976710656"

subsection \<open>The qualitative condition, its sentence and its icon\<close>

text \<open>\<^verbatim>\<open>WeatherService.determineCondition(temp, humidity, rainfall)\<close>, lines 296-302.\<close>

definition determineCondition :: "real \<Rightarrow> real \<Rightarrow> real \<Rightarrow> string" where
  "determineCondition temp humidity rainfall =
     (if rainfall > 5 then ''rainy''
      else if humidity > 80 then ''humid''
      else if temp > 32 then ''hot''
      else if temp < 26 then ''cool''
      else ''pleasant'')"

text \<open>\<^verbatim>\<open>WeatherService.getConditionDescription(temp, rainfall)\<close>, lines 304-310.\<close>

definition getConditionDescription :: "real \<Rightarrow> real \<Rightarrow> string" where
  "getConditionDescription temp rainfall =
     (if rainfall > 10 then ''Heavy rain - consider rescheduling cleanup''
      else if rainfall > 2 then ''Light rain - bring umbrellas!''
      else if temp > 33 then ''Very hot - stay hydrated and take breaks''
      else if temp > 30 then ''Great weather for beach cleanup!''
      else ''Perfect conditions for outdoor activities!'')"

text \<open>
  The icons of the source, as code points: cloud with rain (U+1F327 U+FE0F), sun
  behind rain cloud (U+1F326 U+FE0F), sun (U+2600 U+FE0F), sun behind small cloud
  (U+1F324 U+FE0F), sun behind cloud (U+26C5), thunder cloud and rain (U+26C8 U+FE0F),
  cloud (U+2601 U+FE0F).
\<close>

definition icon_cloud_rain :: glyph where
  "icon_cloud_rain = [0x1F327, 0xFE0F]"

definition icon_sun_rain_cloud :: glyph where
  "icon_sun_rain_cloud = [0x1F326, 0xFE0F]"

definition icon_sun :: glyph where
  "icon_sun = [0x2600, 0xFE0F]"

definition icon_sun_small_cloud :: glyph where
  "icon_sun_small_cloud = [0x1F324, 0xFE0F]"

definition icon_sun_behind_cloud :: glyph where
  "icon_sun_behind_cloud = [0x26C5]"

definition icon_thunder :: glyph where
  "icon_thunder = [0x26C8, 0xFE0F]"

definition icon_cloud :: glyph where
  "icon_cloud = [0x2601, 0xFE0F]"

text \<open>\<^verbatim>\<open>WeatherService.getWeatherIcon(rainfall, temp)\<close>, lines 312-318.\<close>

definition getWeatherIcon :: "real \<Rightarrow> real \<Rightarrow> glyph" where
  "getWeatherIcon rainfall temp =
     (if rainfall > 5 then icon_cloud_rain
      else if rainfall > 0 then icon_sun_rain_cloud
      else if temp > 32 then icon_sun
      else if temp > 28 then icon_sun_small_cloud
      else icon_sun_behind_cloud)"

subsection \<open>Configuration\<close>

text \<open>
  A coordinate as the location resolver hands it out: the resolved position carries an
  accuracy and no name, \<^verbatim>\<open>CONFIG.DEFAULT_LOCATION\<close> a name and no accuracy.
\<close>

record location =
  lat :: real
  lng :: real
  accuracy :: "real option"
  name :: "string option"

definition DEFAULT_LOCATION :: location where
  "DEFAULT_LOCATION =
     \<lparr>lat = 1381497 / 1000000, lng = 103955574 / 1000000, accuracy = None,
      name = Some ''Pasir Ris, Singapore''\<rparr>"

definition USER_LOCATION :: string where
  "USER_LOCATION = ''shoresquad_user_location''"

subsection \<open>Utils: local storage\<close>

text \<open>
  \<^verbatim>\<open>localStorage\<close> holds the stored values by key; \<open>writable\<close> is false when
  \<^verbatim>\<open>setItem\<close> throws (quota exceeded, storage disabled). The stored value is kept as
  the location itself, not as its JSON text.
\<close>

record local_storage =
  entries :: "string \<rightharpoonup> location"
  writable :: bool

text \<open>\<^verbatim>\<open>Utils.setLocalStorage(key, value)\<close>, lines 109-117: the write, and whether it
  succeeded.\<close>

definition setLocalStorage :: "string \<Rightarrow> location \<Rightarrow> local_storage \<Rightarrow> bool \<times> local_storage" where
  "setLocalStorage key v st =
     (if writable st then (True, st\<lparr>entries := (entries st)(key \<mapsto> v)\<rparr>)
      else (False, st))"

subsection \<open>GeolocationService\<close>

datatype position_error_code = PERMISSION_DENIED | POSITION_UNAVAILABLE | TIMEOUT

record position_error =
  error_code :: position_error_code
  message :: string

record coordinates =
  latitude :: real
  longitude :: real
  coords_accuracy :: real

record position_options =
  enableHighAccuracy :: bool
  timeout_ms :: nat
  maximumAge :: nat

text \<open>
  The browser's answer to \<^verbatim>\<open>navigator.geolocation.getCurrentPosition\<close>: it calls the
  success callback with a position or the error callback with an error.
\<close>

datatype geolocation_answer = Position coordinates | PositionError position_error

text \<open>\<open>geolocation = None\<close> is a browser without the capability
  (\<^verbatim>\<open>!navigator.geolocation\<close>).\<close>

record navigator =
  geolocation :: "(position_options \<Rightarrow> geolocation_answer) option"

text \<open>
  \<^verbatim>\<open>GeolocationService.getCurrentPosition()\<close>, lines 122-151. The result is what the
  promise settles with, and the local storage after the call.
\<close>

definition getCurrentPosition ::
  "navigator \<Rightarrow> local_storage \<Rightarrow> (js_error + location) \<times> local_storage" where
  "getCurrentPosition nav st =
     (case geolocation nav of
        None \<Rightarrow> (Inl (Error ''Geolocation not supported''), st)
      | Some api \<Rightarrow>
          (case api \<lparr>enableHighAccuracy = True, timeout_ms = 10000, maximumAge = 300000\<rparr> of
             Position c \<Rightarrow>
               (let l = \<lparr>lat = latitude c, lng = longitude c,
                         accuracy = Some (coords_accuracy c), name = None\<rparr>;
                    (written, st') = setLocalStorage USER_LOCATION l st
                in (Inr l, st'))
           | PositionError e \<Rightarrow> (Inr DEFAULT_LOCATION, st)))"

text \<open>
  \<^verbatim>\<open>ShoreSquadApp.loadUserLocation()\<close>, lines 770-778, the caller: the value it
  assigns to \<^verbatim>\<open>this.userLocation\<close>.
\<close>

definition loadUserLocation :: "navigator \<Rightarrow> local_storage \<Rightarrow> location \<times> local_storage" where
  "loadUserLocation nav st =
     (case getCurrentPosition nav st of
        (Inr l, st') \<Rightarrow> (l, st')
      | (Inl e, st') \<Rightarrow> (DEFAULT_LOCATION, st'))"

text \<open>
  \<^verbatim>\<open>Math.atan2(y, x)\<close> on the reals: the angle of the point \<open>(x, y)\<close> in
  \<open>(-\<pi>, \<pi>]\<close>, and 0 at the origin.
\<close>

definition Math_atan2 :: "real \<Rightarrow> real \<Rightarrow> real" where
  "Math_atan2 y x =
     (if x > 0 then arctan (y / x)
      else if x < 0 then (if y \<ge> 0 then arctan (y / x) + pi else arctan (y / x) - pi)
      else if y > 0 then pi / 2
      else if y < 0 then - (pi / 2)
      else 0)"

text \<open>
  \<^verbatim>\<open>GeolocationService.calculateDistance(lat1, lng1, lat2, lng2)\<close>, lines 153-166, in
  the arithmetic \<open>A\<close> (\<open>\<Delta>lam\<close> is the source's \<open>\<Delta>\<lambda>\<close>). Every operation rounds; \<open>*\<close> and
  \<open>/\<close> associate to the left. A \<open>NaN\<close> from either \<^verbatim>\<open>Math.sqrt\<close> makes the result
  \<open>NaN\<close>.
\<close>

definition calculateDistance ::
  "arithmetic \<Rightarrow> real \<Rightarrow> real \<Rightarrow> real \<Rightarrow> real \<Rightarrow> real option" where
  "calculateDistance A lat1 lng1 lat2 lng2 =
     (let R = 6371000;
          \<phi>1 = fdiv A (fmul A lat1 (fp_pi A)) 180;
          \<phi>2 = fdiv A (fmul A lat2 (fp_pi A)) 180;
          \<Delta>\<phi> = fdiv A (fmul A (fsub A lat2 lat1) (fp_pi A)) 180;
          \<Delta>lam = fdiv A (fmul A (fsub A lng2 lng1) (fp_pi A)) 180;
          a = fadd A
                (fmul A (fp_sin A (fdiv A \<Delta>\<phi> 2)) (fp_sin A (fdiv A \<Delta>\<phi> 2)))
                (fmul A
                   (fmul A (fmul A (fp_cos A \<phi>1) (fp_cos A \<phi>2)) (fp_sin A (fdiv A \<Delta>lam 2)))
                   (fp_sin A (fdiv A \<Delta>lam 2)))
      in case Math_sqrt A a of
           None \<Rightarrow> None
         | Some y \<Rightarrow>
             (case Math_sqrt A (fsub A 1 a) of
                None \<Rightarrow> None
              | Some x \<Rightarrow> Some (fmul A R (fmul A 2 (fp_atan2 A y x)))))"

text \<open>
  Exact arithmetic, for comparison: nothing is rounded, and the constant and the
  functions are the mathematical ones.
\<close>

definition exact_arithmetic :: arithmetic where
  "exact_arithmetic =
     \<lparr>fp_round = (\<lambda>x. x), fp_pi = pi, fp_sin = sin, fp_cos = cos, fp_atan2 = Math_atan2\<rparr>"

text \<open>
  The haversine formula in the words of the specification, for comparison with
  \<open>calculateDistance\<close>: with \<open>hav \<theta> = (1 - cos \<theta>) / 2\<close>, the great-circle distance on a
  sphere of radius \<open>r\<close> between two points given in degrees is
  \<open>2 r arcsin (sqrt (hav \<Delta>\<phi> + cos \<phi>1 cos \<phi>2 hav \<Delta>\<lambda>))\<close>.
\<close>

definition radians :: "real \<Rightarrow> real" where
  "radians d = d * pi / 180"

definition hav :: "real \<Rightarrow> real" where
  "hav \<theta> = (1 - cos \<theta>) / 2"

definition EARTH_RADIUS :: real where
  "EARTH_RADIUS = 6371000"

definition spec_haversine :: "real \<Rightarrow> real \<Rightarrow> real \<Rightarrow> real \<Rightarrow> real" where
  "spec_haversine lat1 lng1 lat2 lng2 =
     2 * EARTH_RADIUS *
       arcsin (sqrt (hav (radians lat2 - radians lat1) +
                     cos (radians lat1) * cos (radians lat2) *
                       hav (radians lng2 - radians lng1)))"

subsection \<open>The payloads of the two NEA endpoints\<close>

text \<open>
  The realtime-readings payload, \<^verbatim>\<open>{items: [{timestamp, readings: {air_temperature:
  [{station_id, value}], relative_humidity, wind_speed, rainfall}}]}\<close>. The fields
  \<open>station_value\<close>, \<open>rainfall_readings\<close>, \<open>item_timestamp\<close>, \<open>item_readings\<close> and
  \<open>realtime_items\<close> are the source's \<^verbatim>\<open>value\<close>, \<^verbatim>\<open>rainfall\<close>, \<^verbatim>\<open>timestamp\<close>,
  \<^verbatim>\<open>readings\<close> and \<^verbatim>\<open>items\<close>.
\<close>

record station_reading =
  station_id :: string
  station_value :: real

record nea_readings =
  air_temperature :: "station_reading list option"
  relative_humidity :: "station_reading list option"
  wind_speed :: "station_reading list option"
  rainfall_readings :: "station_reading list option"

record realtime_item =
  item_timestamp :: string
  item_readings :: "nea_readings option"

record realtime_data =
  realtime_items :: "realtime_item list option"

text \<open>
  The forecast payload, \<^verbatim>\<open>{items: [{forecasts: [{date, forecast, temperature: {high,
  low}, relative_humidity: {high, low}, wind: {speed, direction}}]}]}\<close>. A wind speed is
  passed through as it comes: a range from the API, a number in the fallback data.
\<close>

record high_low =
  high :: real
  low :: real

datatype wind_speed_value = Speed_range high_low | Speed_number int

record wind_info =
  speed :: wind_speed_value
  direction :: string

record forecast_entry =
  entry_date :: string
  entry_forecast :: "string option"
  entry_temperature :: "high_low option"
  entry_relative_humidity :: "high_low option"
  entry_wind :: "wind_info option"

record forecast_item =
  item_forecasts :: "forecast_entry list option"

record forecast_data =
  forecast_items :: "forecast_item list option"

subsection \<open>The normalized weather data\<close>

text \<open>\<open>location_name\<close> is the source's \<^verbatim>\<open>location\<close>.\<close>

record current_weather =
  temperature :: int
  humidity :: int
  windSpeed :: int
  rainfall :: real
  condition :: string
  description :: string
  icon :: glyph
  timestamp :: string
  location_name :: string

text \<open>
  One day of the forecast list; \<open>day_temperature\<close>, \<open>day_humidity\<close>, \<open>day_icon\<close> and
  \<open>day_description\<close> are the source's \<^verbatim>\<open>temperature\<close>, \<^verbatim>\<open>humidity\<close>, \<^verbatim>\<open>icon\<close> and
  \<^verbatim>\<open>description\<close>; \<open>wind = None\<close> is \<^verbatim>\<open>null\<close>.
\<close>

record forecast_day =
  date :: string
  forecast :: string
  day_temperature :: high_low
  day_humidity :: high_low
  wind :: "wind_info option"
  day_icon :: glyph
  day_description :: string

record weather_data =
  current :: current_weather
  forecast_list :: "forecast_day list"

subsection \<open>The environment: network, clock and random numbers\<close>

text \<open>
  What \<^verbatim>\<open>fetch\<close> settles with for each endpoint: a rejection, or a response with its
  \<^verbatim>\<open>ok\<close> flag, its status, and what \<^verbatim>\<open>response.json()\<close> settles with.
\<close>

record 'a http_response =
  ok :: bool
  status :: nat
  json :: "js_error + 'a"

text \<open>
  \<open>date_now k\<close> is the clock (milliseconds since the epoch) at its \<open>k\<close>-th reading,
  \<open>math_random k\<close> the \<open>k\<close>-th value drawn from \<^verbatim>\<open>Math.random()\<close>, and \<open>toISOString\<close>
  the platform's rendering of an instant, \<^verbatim>\<open>Date.prototype.toISOString\<close>.
\<close>

record environment =
  fetch_realtime :: "js_error + realtime_data http_response"
  fetch_forecast :: "js_error + forecast_data http_response"
  date_now :: "nat \<Rightarrow> int"
  math_random :: "nat \<Rightarrow> real"
  toISOString :: "int \<Rightarrow> string"

record oracle_state =
  clock_reads :: nat
  random_draws :: nat

definition Date_now :: "environment \<Rightarrow> oracle_state \<Rightarrow> int \<times> oracle_state" where
  "Date_now env s = (date_now env (clock_reads s), s\<lparr>clock_reads := Suc (clock_reads s)\<rparr>)"

definition Math_random :: "environment \<Rightarrow> oracle_state \<Rightarrow> real \<times> oracle_state" where
  "Math_random env s =
     (math_random env (random_draws s), s\<lparr>random_draws := Suc (random_draws s)\<rparr>)"

subsection \<open>WeatherService: fetching\<close>

text \<open>\<^verbatim>\<open>WeatherService.fetchRealtimeWeather()\<close>, lines 187-203.\<close>

definition fetchRealtimeWeather :: "environment \<Rightarrow> js_error + realtime_data" where
  "fetchRealtimeWeather env =
     (case fetch_realtime env of
        Inl e \<Rightarrow> Inl e
      | Inr response \<Rightarrow>
          if \<not> ok response then Inl (StatusError ''NEA API error: '' (status response))
          else json response)"

text \<open>\<^verbatim>\<open>WeatherService.fetch4DayForecast()\<close>, lines 205-221.\<close>

definition fetch4DayForecast :: "environment \<Rightarrow> js_error + forecast_data" where
  "fetch4DayForecast env =
     (case fetch_forecast env of
        Inl e \<Rightarrow> Inl e
      | Inr response \<Rightarrow>
          if \<not> ok response
          then Inl (StatusError ''NEA Forecast API error: '' (status response))
          else json response)"

subsection \<open>WeatherService: fallback data\<close>

text \<open>\<^verbatim>\<open>WeatherService.getFallbackCurrentWeather()\<close>, lines 351-363; \<^verbatim>\<open>new Date()\<close>
  reads the clock.\<close>

definition getFallbackCurrentWeather ::
  "environment \<Rightarrow> oracle_state \<Rightarrow> current_weather \<times> oracle_state" where
  "getFallbackCurrentWeather env s =
     (let (now, s1) = Date_now env s
      in (\<lparr>temperature = 29,
           humidity = 78,
           windSpeed = 12,
           rainfall = 0,
           condition = ''pleasant'',
           description = ''Typical Singapore weather - great for beach cleanup!'',
           icon = icon_sun_small_cloud,
           timestamp = toISOString env now,
           location_name = ''Singapore''\<rparr>, s1))"

text \<open>\<^verbatim>\<open>s.split('T')[0]\<close>: the part of \<open>s\<close> before its first \<open>T\<close>.\<close>

definition split_T_0 :: "string \<Rightarrow> string" where
  "split_T_0 s = takeWhile (\<lambda>c. c \<noteq> CHR ''T'') s"

text \<open>
  The callback of \<^verbatim>\<open>days.map\<close> in \<^verbatim>\<open>getFallbackForecastData\<close>, lines 367-384. The
  properties of the object literal are evaluated in source order: the clock for the
  date, then five draws of \<^verbatim>\<open>Math.random()\<close>, each multiplied in double arithmetic
  before \<^verbatim>\<open>Math.round\<close>.
\<close>

definition fallbackForecastDay ::
  "environment \<Rightarrow> string \<Rightarrow> nat \<Rightarrow> oracle_state \<Rightarrow> forecast_day \<times> oracle_state" where
  "fallbackForecastDay env day index s =
     (let (now, s1) = Date_now env s;
          (r1, s2) = Math_random env s1;
          (r2, s3) = Math_random env s2;
          (r3, s4) = Math_random env s3;
          (r4, s5) = Math_random env s4;
          (r5, s6) = Math_random env s5
      in (\<lparr>date = split_T_0 (toISOString env (now + int index * 24 * 60 * 60 * 1000)),
           forecast = ''Partly Cloudy'',
           day_temperature =
             \<lparr>high = of_int (32 + Math_round (fl (r1 * 3))),
              low = of_int (26 + Math_round (fl (r2 * 2)))\<rparr>,
           day_humidity =
             \<lparr>high = of_int (85 + Math_round (fl (r3 * 10))),
              low = of_int (65 + Math_round (fl (r4 * 10)))\<rparr>,
           wind = Some \<lparr>speed = Speed_number (10 + Math_round (fl (r5 * 5))), direction = ''NE''\<rparr>,
           day_icon = (if index = 0 then icon_sun_small_cloud else icon_sun_behind_cloud),
           day_description = ''Good conditions for outdoor activities''\<rparr>, s6))"

text \<open>\<^verbatim>\<open>Array.prototype.map\<close> with a callback \<open>(element, index)\<close> that reads the
  oracles: the elements are visited in order, from index \<open>i\<close> on.\<close>

fun map_indexed ::
  "('a \<Rightarrow> nat \<Rightarrow> 's \<Rightarrow> 'b \<times> 's) \<Rightarrow> 'a list \<Rightarrow> nat \<Rightarrow> 's \<Rightarrow> 'b list \<times> 's" where
  "map_indexed f [] i s = ([], s)"
| "map_indexed f (x # xs) i s =
     (let (y, s1) = f x i s;
          (ys, s2) = map_indexed f xs (Suc i) s1
      in (y # ys, s2))"

text \<open>\<^verbatim>\<open>WeatherService.getFallbackForecastData()\<close>, lines 365-385.\<close>

definition getFallbackForecastData ::
  "environment \<Rightarrow> oracle_state \<Rightarrow> forecast_day list \<times> oracle_state" where
  "getFallbackForecastData env s =
     (let days = [''Today'', ''Tomorrow'', ''Day 3'', ''Day 4'']
      in map_indexed (fallbackForecastDay env) days 0 s)"

text \<open>\<^verbatim>\<open>WeatherService.getFallbackWeatherData()\<close>, lines 344-349.\<close>

definition getFallbackWeatherData ::
  "environment \<Rightarrow> oracle_state \<Rightarrow> weather_data \<times> oracle_state" where
  "getFallbackWeatherData env s =
     (let (c, s1) = getFallbackCurrentWeather env s;
          (f, s2) = getFallbackForecastData env s1
      in (\<lparr>current = c, forecast_list = f\<rparr>, s2))"

subsection \<open>WeatherService: the current conditions\<close>

text \<open>
  \<^verbatim>\<open>arr.find(p) || arr[0]\<close>: the first element that satisfies \<open>p\<close>, else the first
  element, else \<^verbatim>\<open>undefined\<close> (a station entry is an object, hence truthy).
\<close>

definition find_or_first :: "('a \<Rightarrow> bool) \<Rightarrow> 'a list \<Rightarrow> 'a option" where
  "find_or_first p arr =
     (case List.find p arr of
        Some x \<Rightarrow> Some x
      | None \<Rightarrow> (case arr of [] \<Rightarrow> None | x # _ \<Rightarrow> Some x))"

definition changi_area :: "station_reading \<Rightarrow> bool" where
  "changi_area station \<longleftrightarrow> station_id station = ''S24'' \<or> station_id station = ''S109''"

definition pasir_ris :: "station_reading \<Rightarrow> bool" where
  "pasir_ris station \<longleftrightarrow> station_id station = ''S64''"

text \<open>
  The object literal that \<^verbatim>\<open>formatCurrentWeather\<close> returns, lines 250-260, from the
  values of the constants \<^verbatim>\<open>temperature\<close>, \<^verbatim>\<open>humidity\<close>, \<^verbatim>\<open>windSpeed\<close> and
  \<^verbatim>\<open>rainfall\<close> of lines 245-248 and from \<^verbatim>\<open>items.timestamp\<close>.
\<close>

definition currentWeatherRecord ::
  "real \<Rightarrow> real \<Rightarrow> real \<Rightarrow> real \<Rightarrow> string \<Rightarrow> current_weather" where
  "currentWeatherRecord temperature' humidity' windSpeed' rainfall' timestamp' =
     \<lparr>temperature = Math_round temperature',
      humidity = Math_round humidity',
      windSpeed = Math_round windSpeed',
      rainfall = rainfall',
      condition = determineCondition temperature' humidity' rainfall',
      description = getConditionDescription temperature' rainfall',
      icon = getWeatherIcon rainfall' temperature',
      timestamp = timestamp',
      location_name = ''Pasir Ris Area''\<rparr>"

text \<open>
  The \<^verbatim>\<open>try\<close> block of \<^verbatim>\<open>formatCurrentWeather\<close>, lines 225-260. Reading a
  property of \<^verbatim>\<open>undefined\<close> throws a \<open>TypeError\<close>. Line 247,
  \<^verbatim>\<open>const windSpeed = windReading ? Math.round(windSpeed.value * 3.6) : 10\<close>, reads
  \<^verbatim>\<open>windSpeed\<close> inside its own initializer when \<^verbatim>\<open>windReading\<close> is truthy: the
  binding is not initialized yet, and the read throws a \<open>ReferenceError\<close>.
\<close>

definition formatCurrentWeather_try :: "realtime_data \<Rightarrow> js_error + current_weather" where
  "formatCurrentWeather_try data =
     (case realtime_items data of
        None \<Rightarrow> Inl TypeError
      | Some [] \<Rightarrow> Inl TypeError
      | Some (items # _) \<Rightarrow>
     (case item_readings items of
        None \<Rightarrow> Inl TypeError
      | Some readings \<Rightarrow>
     (case air_temperature readings of
        None \<Rightarrow> Inl TypeError
      | Some temps \<Rightarrow>
     (case relative_humidity readings of
        None \<Rightarrow> Inl TypeError
      | Some hums \<Rightarrow>
     (case rainfall_readings readings of
        None \<Rightarrow> Inl TypeError
      | Some rains \<Rightarrow>
     (let tempReading = find_or_first changi_area temps;
          humidityReading = find_or_first changi_area hums;
          windReading = (case wind_speed readings of
                           Some winds \<Rightarrow> find_or_first changi_area winds
                         | None \<Rightarrow> None);
          rainfallReading = find_or_first pasir_ris rains;
          temperature' = (case tempReading of Some x \<Rightarrow> station_value x | None \<Rightarrow> 28);
          humidity' = (case humidityReading of Some x \<Rightarrow> station_value x | None \<Rightarrow> 75)
      in (case windReading of
            Some x \<Rightarrow> Inl ReferenceError
          | None \<Rightarrow>
     (let windSpeed' = 10;
          rainfall' = (case rainfallReading of Some x \<Rightarrow> station_value x | None \<Rightarrow> 0)
      in Inr (currentWeatherRecord temperature' humidity' windSpeed' rainfall'
                (item_timestamp items))))))))))"

text \<open>
  The values of the constants \<^verbatim>\<open>temperature\<close> (lines 229-231 and 245) and
  \<^verbatim>\<open>rainfall\<close> (lines 241-243 and 248) of \<^verbatim>\<open>formatCurrentWeather\<close> for a payload:
  the value of the selected station entry, or the default when the list has no entry;
  \<open>None\<close> when the payload does not carry the list.
\<close>

definition payload_readings :: "realtime_data \<Rightarrow> nea_readings option" where
  "payload_readings data =
     (case realtime_items data of
        None \<Rightarrow> None
      | Some [] \<Rightarrow> None
      | Some (items # _) \<Rightarrow> item_readings items)"

definition selected_temperature :: "realtime_data \<Rightarrow> real option" where
  "selected_temperature data =
     (case payload_readings data of
        None \<Rightarrow> None
      | Some readings \<Rightarrow>
          (case air_temperature readings of
             None \<Rightarrow> None
           | Some temps \<Rightarrow>
               Some (case find_or_first changi_area temps of
                       Some x \<Rightarrow> station_value x
                     | None \<Rightarrow> 28)))"

definition selected_rainfall :: "realtime_data \<Rightarrow> real option" where
  "selected_rainfall data =
     (case payload_readings data of
        None \<Rightarrow> None
      | Some readings \<Rightarrow>
          (case rainfall_readings readings of
             None \<Rightarrow> None
           | Some rains \<Rightarrow>
               Some (case find_or_first pasir_ris rains of
                       Some x \<Rightarrow> station_value x
                     | None \<Rightarrow> 0)))"

text \<open>\<^verbatim>\<open>WeatherService.formatCurrentWeather(data)\<close>, lines 223-265: the \<^verbatim>\<open>try\<close> block
  and its \<^verbatim>\<open>catch\<close>.\<close>

definition formatCurrentWeather ::
  "environment \<Rightarrow> realtime_data \<Rightarrow> oracle_state \<Rightarrow> current_weather \<times> oracle_state" where
  "formatCurrentWeather env data s =
     (case formatCurrentWeather_try data of
        Inr w \<Rightarrow> (w, s)
      | Inl error \<Rightarrow> getFallbackCurrentWeather env s)"

subsection \<open>WeatherService: the forecast list\<close>

text \<open>\<^verbatim>\<open>String.prototype.toLowerCase\<close> on ASCII text, and \<^verbatim>\<open>s.includes(sub)\<close>
  (\<open>includes\<close> is a keyword of Isabelle, hence \<open>str_includes\<close>).\<close>

definition lower_char :: "char \<Rightarrow> char" where
  "lower_char c =
     (let n = (of_char c :: nat)
      in if of_char CHR ''A'' \<le> n \<and> n \<le> of_char CHR ''Z'' then char_of (n + 32) else c)"

definition toLowerCase :: "string \<Rightarrow> string" where
  "toLowerCase s = map lower_char s"

fun str_includes :: "string \<Rightarrow> string \<Rightarrow> bool" where
  "str_includes [] sub = (sub = [])"
| "str_includes (c # cs) sub = (take (length sub) (c # cs) = sub \<or> str_includes cs sub)"

text \<open>\<^verbatim>\<open>WeatherService.getForecastIcon(forecast)\<close>, lines 320-328.\<close>

definition getForecastIcon :: "string \<Rightarrow> glyph" where
  "getForecastIcon fc =
     (let forecastLower = toLowerCase fc
      in if str_includes forecastLower ''rain'' \<or> str_includes forecastLower ''shower''
         then icon_cloud_rain
         else if str_includes forecastLower ''thunder'' then icon_thunder
         else if str_includes forecastLower ''cloud'' then icon_cloud
         else if str_includes forecastLower ''partly'' then icon_sun_behind_cloud
         else if str_includes forecastLower ''fair'' \<or> str_includes forecastLower ''sunny''
         then icon_sun
         else icon_sun_small_cloud)"

text \<open>\<^verbatim>\<open>WeatherService.getForecastDescription(forecast)\<close>, lines 330-342.\<close>

definition getForecastDescription :: "string \<Rightarrow> string" where
  "getForecastDescription fc =
     (let forecastLower = toLowerCase fc
      in if str_includes forecastLower ''rain'' \<or> str_includes forecastLower ''shower''
         then ''Check weather before heading out''
         else if str_includes forecastLower ''thunder''
         then ''Not suitable for beach activities''
         else if str_includes forecastLower ''fair'' \<or> str_includes forecastLower ''sunny''
         then ''Perfect for beach cleanup!''
         else ''Good conditions for outdoor activities'')"

text \<open>
  The callback of \<^verbatim>\<open>forecasts.map\<close> in \<^verbatim>\<open>formatForecastData\<close>, lines 272-289:
  \<^verbatim>\<open>day.temperature.high\<close>, \<^verbatim>\<open>day.relative_humidity.high\<close> and
  \<^verbatim>\<open>forecast.toLowerCase()\<close> throw when the property is missing.
\<close>

definition formatForecastDay :: "forecast_entry \<Rightarrow> js_error + forecast_day" where
  "formatForecastDay day =
     (case entry_temperature day of
        None \<Rightarrow> Inl TypeError
      | Some t \<Rightarrow>
     (case entry_relative_humidity day of
        None \<Rightarrow> Inl TypeError
      | Some h \<Rightarrow>
     (case entry_forecast day of
        None \<Rightarrow> Inl TypeError
      | Some fc \<Rightarrow>
          Inr \<lparr>date = entry_date day,
               forecast = fc,
               day_temperature = \<lparr>high = high t, low = low t\<rparr>,
               day_humidity = \<lparr>high = high h, low = low h\<rparr>,
               wind = (case entry_wind day of
                         Some w \<Rightarrow> Some \<lparr>speed = speed w, direction = direction w\<rparr>
                       | None \<Rightarrow> None),
               day_icon = getForecastIcon fc,
               day_description = getForecastDescription fc\<rparr>)))"

text \<open>\<^verbatim>\<open>Array.prototype.map\<close> with a callback that may throw: the first exception ends
  the loop.\<close>

fun map_throwing :: "('a \<Rightarrow> js_error + 'b) \<Rightarrow> 'a list \<Rightarrow> js_error + 'b list" where
  "map_throwing f [] = Inr []"
| "map_throwing f (x # xs) =
     (case f x of
        Inl e \<Rightarrow> Inl e
      | Inr y \<Rightarrow> (case map_throwing f xs of Inl e \<Rightarrow> Inl e | Inr ys \<Rightarrow> Inr (y # ys)))"

text \<open>The \<^verbatim>\<open>try\<close> block of \<^verbatim>\<open>formatForecastData\<close>, lines 269-289.\<close>

definition formatForecastData_try :: "forecast_data \<Rightarrow> js_error + forecast_day list" where
  "formatForecastData_try data =
     (case forecast_items data of
        None \<Rightarrow> Inl TypeError
      | Some [] \<Rightarrow> Inl TypeError
      | Some (items # _) \<Rightarrow>
          (case item_forecasts items of
             None \<Rightarrow> Inl TypeError
           | Some forecasts \<Rightarrow> map_throwing formatForecastDay forecasts))"

text \<open>\<^verbatim>\<open>WeatherService.formatForecastData(data)\<close>, lines 267-294.\<close>

definition formatForecastData ::
  "environment \<Rightarrow> forecast_data \<Rightarrow> oracle_state \<Rightarrow> forecast_day list \<times> oracle_state" where
  "formatForecastData env data s =
     (case formatForecastData_try data of
        Inr days \<Rightarrow> (days, s)
      | Inl error \<Rightarrow> getFallbackForecastData env s)"

subsection \<open>WeatherService: the entry point\<close>

text \<open>
  \<^verbatim>\<open>WeatherService.getCurrentWeather()\<close>, lines 171-185. The two fetches are awaited
  one after the other, both before anything is formatted; a rejection of either is
  caught by the \<^verbatim>\<open>catch\<close>.
\<close>

definition getCurrentWeather ::
  "environment \<Rightarrow> oracle_state \<Rightarrow> weather_data \<times> oracle_state" where
  "getCurrentWeather env s =
     (case fetchRealtimeWeather env of
        Inl error \<Rightarrow> getFallbackWeatherData env s
      | Inr realtimeData \<Rightarrow>
          (case fetch4DayForecast env of
             Inl error \<Rightarrow> getFallbackWeatherData env s
           | Inr forecastData \<Rightarrow>
               (let (c, s1) = formatCurrentWeather env realtimeData s;
                    (f, s2) = formatForecastData env forecastData s1
                in (\<lparr>current = c, forecast_list = f\<rparr>, s2))))"

subsection \<open>Sample inputs\<close>

text \<open>
  Concrete environments and payloads on which the theorems below are evaluated.
  \<open>sample_toISOString\<close> agrees with \<^verbatim>\<open>Date.prototype.toISOString\<close> on the instants
  of 1 to 9 January 1970 (UTC), the only ones the samples reach: their clock shows
  \<open>k\<close> milliseconds after the epoch at its \<open>k\<close>-th reading.
\<close>

definition digit_char :: "int \<Rightarrow> char" where
  "digit_char n = ''0123456789'' ! nat n"

definition pad2 :: "int \<Rightarrow> string" where
  "pad2 n = [digit_char (n div 10 mod 10), digit_char (n mod 10)]"

definition pad3 :: "int \<Rightarrow> string" where
  "pad3 n = [digit_char (n div 100 mod 10), digit_char (n div 10 mod 10), digit_char (n mod 10)]"

definition sample_toISOString :: "int \<Rightarrow> string" where
  "sample_toISOString t =
     (let day = t div 86400000;
          ms = t mod 86400000
      in ''1970-01-0'' @ [digit_char (day + 1)] @ ''T'' @ pad2 (ms div 3600000) @ '':'' @
         pad2 (ms div 60000 mod 60) @ '':'' @ pad2 (ms div 1000 mod 60) @ ''.'' @
         pad3 (ms mod 1000) @ ''Z'')"

definition sample_environment ::
  "(js_error + realtime_data http_response) \<Rightarrow> (js_error + forecast_data http_response) \<Rightarrow>
   real \<Rightarrow> environment" where
  "sample_environment realtime_answer forecast_answer r =
     \<lparr>fetch_realtime = realtime_answer,
      fetch_forecast = forecast_answer,
      date_now = (\<lambda>k. int k),
      math_random = (\<lambda>k. r),
      toISOString = sample_toISOString\<rparr>"

definition initial_state :: oracle_state where
  "initial_state = \<lparr>clock_reads = 0, random_draws = 0\<rparr>"

text \<open>
  A realtime payload from its four reading lists (\<open>wind_speed\<close> possibly absent), with
  the timestamp \<^verbatim>\<open>2024-05-01T12:00:00+08:00\<close>.
\<close>

definition sample_realtime ::
  "station_reading list \<Rightarrow> station_reading list \<Rightarrow> station_reading list option \<Rightarrow>
   station_reading list \<Rightarrow> realtime_data" where
  "sample_realtime temps hums winds rains =
     \<lparr>realtime_items = Some
        [\<lparr>item_timestamp = ''2024-05-01T12:00:00+08:00'',
          item_readings = Some
            \<lparr>air_temperature = Some temps,
             relative_humidity = Some hums,
             wind_speed = winds,
             rainfall_readings = Some rains\<rparr>\<rparr>]\<rparr>"

definition sample_forecast :: forecast_data where
  "sample_forecast =
     \<lparr>forecast_items = Some
        [\<lparr>item_forecasts = Some
           [\<lparr>entry_date = ''2024-05-02'',
             entry_forecast = Some ''Afternoon thundery showers'',
             entry_temperature = Some \<lparr>high = 33, low = 25\<rparr>,
             entry_relative_humidity = Some \<lparr>high = 95, low = 60\<rparr>,
             entry_wind = Some \<lparr>speed = Speed_range \<lparr>high = 20, low = 10\<rparr>,
                                 direction = ''SSE''\<rparr>\<rparr>]\<rparr>]\<rparr>"

text \<open>A local storage that holds nothing and accepts writes.\<close>

definition empty_storage :: local_storage where
  "empty_storage = \<lparr>entries = Map.empty, writable = True\<rparr>"

text \<open>
  A double arithmetic with a correctly rounded \<^verbatim>\<open>Math.sin\<close>, \<^verbatim>\<open>Math.cos\<close> and
  \<^verbatim>\<open>Math.atan2\<close>. The values of the sine at 0.20943951023931953 and at
  1.5707963267948966 and of the cosine at 0.20943951023931953 are written out:
  0.20791169081775931, 1 and 0.9781476007338057, the doubles nearest to the exact
  values.
\<close>

definition sample_sin :: "real \<Rightarrow> real" where
  "sample_sin x =
     sgn x *
       (if \<bar>x\<bar> = 7545853602163669 / 36028797018963968
        then 7490808106342645 / 36028797018963968
        else if \<bar>x\<bar> = 884279719003555 / 562949953421312 then 1
        else fl (sin \<bar>x\<bar>))"

definition sample_cos :: "real \<Rightarrow> real" where
  "sample_cos x =
     (if \<bar>x\<bar> = 7545853602163669 / 36028797018963968
      then 68831018284033 / 70368744177664
      else fl (cos \<bar>x\<bar>))"

definition sample_double_arithmetic :: arithmetic where
  "sample_double_arithmetic =
     \<lparr>fp_round = fl, fp_pi = double_pi, fp_sin = sample_sin, fp_cos = sample_cos,
      fp_atan2 = (\<lambda>y x. fl (Math_atan2 y x))\<rparr>"

definition ok_response :: "'a \<Rightarrow> js_error + 'a http_response" where
  "ok_response body = Inr \<lparr>ok = True, status = 200, json = Inr body\<rparr>"

section \<open>Theorems\<close>

subsection \<open>Auxiliary facts: rounding to a double\<close>

text \<open>
  \<open>fl x\<close> is the double \<open>m / 2 ^ n\<close> as soon as \<open>x\<close> lies in the binade whose doubles
  are the multiples of \<open>1 / 2 ^ n\<close> and is less than half a unit away from it.
\<close>

lemma round_half_even_near:
  assumes "\<bar>y - of_int m\<bar> < 1 / 2"
  shows "round_half_even y = m"
proof (cases "of_int m \<le> y")
  case True
  with assms have "\<lfloor>y\<rfloor> = m" by (intro floor_unique) auto
  with assms True show ?thesis by (simp add: round_half_even_def Let_def)
next
  case False
  with assms have "\<lfloor>y\<rfloor> = m - 1" by (intro floor_unique) auto
  with assms False show ?thesis by (simp add: round_half_even_def Let_def)
qed

lemma ulp_eq:
  assumes "2 ^ 52 \<le> \<bar>x\<bar> * 2 ^ n" and "\<bar>x\<bar> * 2 ^ n < 2 ^ 53"
  shows "ulp x = 1 / 2 ^ n"
proof -
  have pos: "0 < \<bar>x\<bar>" using assms(1) by (cases "x = 0") auto
  have p: "(2::real) powr (52 - int n) = 2 ^ 52 / 2 ^ n"
    by (simp add: powr_diff powr_realpow flip: powr_numeral)
  have q: "(2::real) powr (52 - int n + 1) = 2 ^ 53 / 2 ^ n"
    by (simp add: powr_diff powr_add powr_realpow flip: powr_numeral)
  have "(2::real) powr (52 - int n) \<le> \<bar>x\<bar>" unfolding p using assms(1)
    by (simp add: field_simps)
  moreover have "\<bar>x\<bar> < (2::real) powr (52 - int n + 1)" unfolding q using assms(2)
    by (simp add: field_simps)
  ultimately have "\<lfloor>log 2 \<bar>x\<bar>\<rfloor> = 52 - int n"
    using pos floor_log_eq_powr_iff [of "\<bar>x\<bar>" 2 "52 - int n"] by simp
  then show ?thesis by (simp add: ulp_def powr_minus powr_realpow inverse_eq_divide)
qed

lemma fl_eqI:
  assumes "2 ^ 52 \<le> \<bar>x\<bar> * 2 ^ n" and "\<bar>x\<bar> * 2 ^ n < 2 ^ 53"
    and "\<bar>\<bar>x\<bar> * 2 ^ n - of_int m\<bar> < 1 / 2"
    and "v = sgn x * (of_int m / 2 ^ n)"
  shows "fl x = v"
proof -
  have nz: "x \<noteq> 0" using assms(1) by auto
  have u: "ulp x = 1 / 2 ^ n" using assms(1,2) by (rule ulp_eq)
  have "round_half_even (\<bar>x\<bar> / ulp x) = m"
    using assms(3) by (intro round_half_even_near) (simp add: u)
  then show ?thesis using nz by (simp add: fl_def u assms(4))
qed

lemma fl_minus: "fl (- x) = - fl x"
  by (simp add: fl_def ulp_def)

lemma fl_0: "fl 0 = 0"
  by (simp add: fl_def)

lemma fl_1: "fl 1 = 1"
  by (rule fl_eqI [where n = 52 and m = "2 ^ 52"]) simp_all




subsection \<open>Auxiliary facts: the distance between two antipodal points\<close>

text \<open>
  \<open>calculateDistance\<close> from (-12, -179) to (12, 1) in double arithmetic, operation by
  operation: \<open>a\<close> comes out as 1.0000000000000002 and \<open>1 - a\<close> as -2.220446049250313e-16.
\<close>

lemma sample_double_arithmetic_fields:
  "fp_round sample_double_arithmetic = fl"
  "fp_pi sample_double_arithmetic = double_pi"
  "fp_sin sample_double_arithmetic = sample_sin"
  "fp_cos sample_double_arithmetic = sample_cos"
  "fp_atan2 sample_double_arithmetic = (\<lambda>y x. fl (Math_atan2 y x))"
  by (simp_all add: sample_double_arithmetic_def)

lemma sample_sin_minus: "sample_sin (- x) = - sample_sin x"
  by (simp add: sample_sin_def sgn_minus)

lemma trace_p1a: "fl (- 12 * double_pi) = - (2652839157010665 / 70368744177664)"
  by (rule fl_eqI [where n = 47 and m = 5305678314021330]) (simp_all add: double_pi_def)

lemma trace_p1: "fl (- (2652839157010665 / 70368744177664) / 180) = - (7545853602163669 / 36028797018963968)"
  by (rule fl_eqI [where n = 55 and m = 7545853602163669]) (simp_all add: double_pi_def)

lemma trace_p2a: "fl (12 * double_pi) = 2652839157010665 / 70368744177664"
  by (rule fl_eqI [where n = 47 and m = 5305678314021330]) (simp_all add: double_pi_def)

lemma trace_p2: "fl (2652839157010665 / 70368744177664 / 180) = 7545853602163669 / 36028797018963968"
  by (rule fl_eqI [where n = 55 and m = 7545853602163669]) (simp_all add: double_pi_def)

lemma trace_dp0: "fl (12 - - 12) = 24"
  by (rule fl_eqI [where n = 48 and m = 6755399441055744]) (simp_all add: double_pi_def)

lemma trace_dp1: "fl (24 * double_pi) = 2652839157010665 / 35184372088832"
  by (rule fl_eqI [where n = 46 and m = 5305678314021330]) (simp_all add: double_pi_def)

lemma trace_dp: "fl (2652839157010665 / 35184372088832 / 180) = 7545853602163669 / 18014398509481984"
  by (rule fl_eqI [where n = 54 and m = 7545853602163669]) (simp_all add: double_pi_def)

lemma trace_dl0: "fl (1 - - 179) = 180"
  by (rule fl_eqI [where n = 45 and m = 6333186975989760]) (simp_all add: double_pi_def)

lemma trace_dl1: "fl (180 * double_pi) = 4974073419394997 / 8796093022208"
  by (rule fl_eqI [where n = 43 and m = 4974073419394997]) (simp_all add: double_pi_def)

lemma trace_dl: "fl (4974073419394997 / 8796093022208 / 180) = 884279719003555 / 281474976710656"
  by (rule fl_eqI [where n = 51 and m = 7074237752028440]) (simp_all add: double_pi_def)

lemma trace_h1: "fl (7545853602163669 / 18014398509481984 / 2) = 7545853602163669 / 36028797018963968"
  by (rule fl_eqI [where n = 55 and m = 7545853602163669]) (simp_all add: double_pi_def)

lemma trace_h2: "fl (884279719003555 / 281474976710656 / 2) = 884279719003555 / 562949953421312"
  by (rule fl_eqI [where n = 52 and m = 7074237752028440]) (simp_all add: double_pi_def)

lemma trace_t1: "fl ((7490808106342645 / 36028797018963968) * (7490808106342645 / 36028797018963968)) = 6229706315924309 / 144115188075855872"
  by (rule fl_eqI [where n = 57 and m = 6229706315924309]) (simp_all add: double_pi_def)

lemma trace_cc: "fl ((68831018284033 / 70368744177664) * (68831018284033 / 70368744177664)) = 2154460652498931 / 2251799813685248"
  by (rule fl_eqI [where n = 53 and m = 8617842609995724]) (simp_all add: double_pi_def)

lemma trace_u1: "fl ((2154460652498931 / 2251799813685248) * 1) = 2154460652498931 / 2251799813685248"
  by (rule fl_eqI [where n = 53 and m = 8617842609995724]) (simp_all add: double_pi_def)

lemma trace_a: "fl ((6229706315924309 / 144115188075855872) + (2154460652498931 / 2251799813685248)) = 4503599627370497 / 4503599627370496"
  by (rule fl_eqI [where n = 52 and m = 4503599627370497]) (simp_all add: double_pi_def)

lemma trace_oma: "fl (1 - (4503599627370497 / 4503599627370496)) = - (1 / 4503599627370496)"
  by (rule fl_eqI [where n = 104 and m = 4503599627370496]) (simp_all add: double_pi_def)

lemma trace_sin_h1:
  "sample_sin (7545853602163669 / 36028797018963968) = 7490808106342645 / 36028797018963968"
  by (simp add: sample_sin_def)

lemma trace_sin_h2: "sample_sin (884279719003555 / 562949953421312) = 1"
  by (simp add: sample_sin_def)

lemma trace_cos_p1:
  "sample_cos (- (7545853602163669 / 36028797018963968)) = 68831018284033 / 70368744177664"
  by (simp add: sample_cos_def)

lemma trace_cos_p2:
  "sample_cos (7545853602163669 / 36028797018963968) = 68831018284033 / 70368744177664"
  by (simp add: sample_cos_def)

lemma sqrt_nan: "Math_sqrt A (- (1 / 4503599627370496)) = None"
  by (simp add: Math_sqrt_def)

lemma calculateDistance_antipodal:
  "calculateDistance sample_double_arithmetic (- 12) (- 179) 12 1 = None"
  by (simp only: calculateDistance_def Let_def fadd_def fsub_def fmul_def fdiv_def
      sample_double_arithmetic_fields trace_p1a trace_p1 trace_p2a trace_p2 trace_dp0 trace_dp1
      trace_dp trace_dl0 trace_dl1 trace_dl trace_h1 trace_h2 trace_sin_h1 trace_sin_h2
      trace_cos_p1 trace_cos_p2 trace_t1 trace_cc trace_u1 trace_a trace_oma sqrt_nan
      option.case)
     (simp add: Math_sqrt_def split: option.splits)

subsection \<open>Auxiliary facts: the haversine formula\<close>

text \<open>
  In exact arithmetic the argument \<open>a\<close> of the square roots in \<open>calculateDistance\<close>
  lies between 0 and 1, neither \<^verbatim>\<open>Math.sqrt\<close> is taken of a negative number, and the
  result is the haversine distance.
\<close>

lemma sin_half_squared: "sin (x / 2) * sin (x / 2) = hav x"
proof -
  have "cos x = cos (2 * (x / 2))" by simp
  also have "\<dots> = 1 - 2 * (sin (x / 2))\<^sup>2" by (rule cos_double_sin)
  finally show ?thesis by (simp add: hav_def power2_eq_square)
qed

lemma hav_range: "0 \<le> hav x \<and> hav x \<le> 1"
  using cos_ge_minus_one [of x] cos_le_one [of x] by (simp add: hav_def)

lemma haversine_argument_range:
  fixes p1 p2 l :: real
  defines "a \<equiv> hav (p2 - p1) + cos p1 * cos p2 * hav l"
  shows "0 \<le> a \<and> a \<le> 1"
proof -
  have prod: "cos p1 * cos p2 = (cos (p2 - p1) + cos (p2 + p1)) / 2"
    by (simp add: cos_add cos_diff)
  have a_eq: "a = 1 / 2 - (1 - hav l) * cos (p2 - p1) / 2 + hav l * cos (p2 + p1) / 2"
    unfolding a_def prod by (simp add: hav_def field_simps)
  have h: "0 \<le> hav l" "hav l \<le> 1" using hav_range [of l] by simp_all
  have c1: "- 1 \<le> cos (p2 - p1)" "cos (p2 - p1) \<le> 1" by simp_all
  have c2: "- 1 \<le> cos (p2 + p1)" "cos (p2 + p1) \<le> 1" by simp_all
  have u1: "(1 - hav l) * cos (p2 - p1) \<le> (1 - hav l) * 1"
    using h c1 by (intro mult_left_mono) simp_all
  have l1: "(1 - hav l) * (- 1) \<le> (1 - hav l) * cos (p2 - p1)"
    using h c1 by (intro mult_left_mono) simp_all
  have u2: "hav l * cos (p2 + p1) \<le> hav l * 1"
    using h c2 by (intro mult_left_mono) simp_all
  have l2: "hav l * (- 1) \<le> hav l * cos (p2 + p1)"
    using h c2 by (intro mult_left_mono) simp_all
  show ?thesis using u1 l1 u2 l2 unfolding a_eq by simp
qed

lemma atan2_sqrt_arcsin:
  assumes "0 \<le> a" "a \<le> 1"
  shows "Math_atan2 (sqrt a) (sqrt (1 - a)) = arcsin (sqrt a)"
proof (cases "a = 1")
  case True
  then show ?thesis by (simp add: Math_atan2_def)
next
  case False
  with assms have lt: "a < 1" by simp
  define y where "y = sqrt a"
  have y: "0 \<le> y" "y < 1" using assms lt by (simp_all add: y_def)
  have y2: "y\<^sup>2 = a" using assms by (simp add: y_def)
  have pos: "0 < sqrt (1 - a)" using lt by simp
  have bounds: "- (pi / 2) < arcsin y \<and> arcsin y < pi / 2"
    using y by (intro arcsin_lt_bounded) simp_all
  have "tan (arcsin y) = y / sqrt (1 - y\<^sup>2)"
    using y by (simp add: tan_def cos_arcsin)
  then have "arctan (y / sqrt (1 - a)) = arcsin y"
    using bounds arctan_tan [of "arcsin y"] by (simp add: y2)
  then show ?thesis using pos by (simp add: Math_atan2_def y_def)
qed

lemma exact_arithmetic_fields:
  "fp_round exact_arithmetic = (\<lambda>x. x)"
  "fp_pi exact_arithmetic = pi"
  "fp_sin exact_arithmetic = sin"
  "fp_cos exact_arithmetic = cos"
  "fp_atan2 exact_arithmetic = Math_atan2"
  by (simp_all add: exact_arithmetic_def)

lemma calculateDistance_exact:
  "calculateDistance exact_arithmetic lat1 lng1 lat2 lng2 =
     Some (spec_haversine lat1 lng1 lat2 lng2)"
proof -
  let ?a = "hav (lat2 * pi / 180 - lat1 * pi / 180) +
            cos (lat1 * pi / 180) * cos (lat2 * pi / 180) *
              hav (lng2 * pi / 180 - lng1 * pi / 180)"
  have d1: "(lat2 - lat1) * pi / 180 = lat2 * pi / 180 - lat1 * pi / 180"
    by (simp add: field_simps)
  have d2: "(lng2 - lng1) * pi / 180 = lng2 * pi / 180 - lng1 * pi / 180"
    by (simp add: field_simps)
  have m: "\<And>u v x. u * v * sin (x / 2) * sin (x / 2) = u * v * hav x"
    using sin_half_squared by (simp add: mult.assoc)
  have r: "0 \<le> ?a \<and> ?a \<le> 1"
    by (rule haversine_argument_range)
  have e: "calculateDistance exact_arithmetic lat1 lng1 lat2 lng2 =
          (case Math_sqrt exact_arithmetic ?a of
             None \<Rightarrow> None
           | Some y \<Rightarrow>
               (case Math_sqrt exact_arithmetic (1 - ?a) of
                  None \<Rightarrow> None
                | Some x \<Rightarrow> Some (6371000 * (2 * Math_atan2 y x))))"
    unfolding calculateDistance_def Let_def fadd_def fsub_def fmul_def fdiv_def
      exact_arithmetic_fields d1 d2 sin_half_squared m
    by (rule refl)
  have s1: "Math_sqrt exact_arithmetic ?a = Some (sqrt ?a)"
    using r by (simp add: Math_sqrt_def exact_arithmetic_fields)
  have s2: "Math_sqrt exact_arithmetic (1 - ?a) = Some (sqrt (1 - ?a))"
    using r by (simp add: Math_sqrt_def exact_arithmetic_fields)
  have "calculateDistance exact_arithmetic lat1 lng1 lat2 lng2 =
          Some (6371000 * (2 * arcsin (sqrt ?a)))"
    unfolding e s1 s2 using r by (simp add: atan2_sqrt_arcsin)
  then show ?thesis
    by (simp add: spec_haversine_def radians_def EARTH_RADIUS_def)
qed

lemma hav_double: "hav (2 * x) = sin x * sin x"
  using sin_half_squared [of "2 * x"] by simp

lemma spec_haversine_antipodal: "spec_haversine (- 12) (- 179) 12 1 = EARTH_RADIUS * pi"
proof -
  have a: "radians 12 - radians (- 12) = 2 * radians 12"
    by (simp add: radians_def)
  have b: "radians 1 - radians (- 179) = pi"
    by (simp add: radians_def)
  have c: "cos (radians (- 12)) = cos (radians 12)"
    by (simp add: radians_def)
  have p: "hav pi = 1"
    by (simp add: hav_def)
  have "hav (2 * radians 12) + cos (radians 12) * cos (radians 12) * hav pi = 1"
    unfolding hav_double p using sin_cos_squared_add3 [of "radians 12"]
    by (simp add: add.commute)
  then show ?thesis
    by (simp add: spec_haversine_def a b c)
qed

subsection \<open>Auxiliary facts: the fallback data and the samples\<close>



lemma fallbackForecastDay_eq:
  "fallbackForecastDay env day index s =
     (\<lparr>date = split_T_0 (toISOString env
               (date_now env (clock_reads s) + int index * 24 * 60 * 60 * 1000)),
       forecast = ''Partly Cloudy'',
       day_temperature =
         \<lparr>high = of_int (32 + Math_round (fl (math_random env (random_draws s) * 3))),
          low = of_int (26 + Math_round (fl (math_random env (random_draws s + 1) * 2)))\<rparr>,
       day_humidity =
         \<lparr>high = of_int (85 + Math_round (fl (math_random env (random_draws s + 2) * 10))),
          low = of_int (65 + Math_round (fl (math_random env (random_draws s + 3) * 10)))\<rparr>,
       wind = Some \<lparr>speed = Speed_number (10 + Math_round (fl (math_random env (random_draws s + 4) * 5))),
                    direction = ''NE''\<rparr>,
       day_icon = (if index = 0 then icon_sun_small_cloud else icon_sun_behind_cloud),
       day_description = ''Good conditions for outdoor activities''\<rparr>,
      \<lparr>clock_reads = clock_reads s + 1, random_draws = random_draws s + 5\<rparr>)"
  by (simp add: fallbackForecastDay_def Date_now_def Math_random_def)
    (simp add: eval_nat_numeral)

lemma getFallbackForecastData_days:
  "fst (getFallbackForecastData env s) =
     [fst (fallbackForecastDay env ''Today'' 0 s),
      fst (fallbackForecastDay env ''Tomorrow'' 1
             \<lparr>clock_reads = clock_reads s + 1, random_draws = random_draws s + 5\<rparr>),
      fst (fallbackForecastDay env ''Day 3'' 2
             \<lparr>clock_reads = clock_reads s + 2, random_draws = random_draws s + 10\<rparr>),
      fst (fallbackForecastDay env ''Day 4'' 3
             \<lparr>clock_reads = clock_reads s + 3, random_draws = random_draws s + 15\<rparr>)]"
  by (simp add: getFallbackForecastData_def fallbackForecastDay_eq)
    (simp add: eval_nat_numeral)


lemma getFallbackCurrentWeather_fields:
  "fst (getFallbackCurrentWeather env s) =
     \<lparr>temperature = 29, humidity = 78, windSpeed = 12, rainfall = 0,
      condition = ''pleasant'',
      description = ''Typical Singapore weather - great for beach cleanup!'',
      icon = icon_sun_small_cloud,
      timestamp = toISOString env (date_now env (clock_reads s)),
      location_name = ''Singapore''\<rparr>"
  by (simp add: getFallbackCurrentWeather_def Date_now_def)

lemma current_getFallbackWeatherData:
  "current (fst (getFallbackWeatherData env s)) = fst (getFallbackCurrentWeather env s)"
  by (simp add: getFallbackWeatherData_def split_def Let_def)

lemma forecast_list_getFallbackWeatherData:
  "forecast_list (fst (getFallbackWeatherData env s)) =
     fst (getFallbackForecastData env (snd (getFallbackCurrentWeather env s)))"
  by (simp add: getFallbackWeatherData_def split_def Let_def)

lemma getCurrentWeather_rejected:
  "isl (fetchRealtimeWeather env) \<or> isl (fetch4DayForecast env) \<Longrightarrow>
   getCurrentWeather env s = getFallbackWeatherData env s"
  by (auto simp: getCurrentWeather_def split: sum.splits)

lemma fetch_samples:
  "fetchRealtimeWeather (sample_environment (Inl e) fc r) = Inl e"
  "fetch4DayForecast (sample_environment rt (Inl e) r) = Inl e"
  "fetchRealtimeWeather (sample_environment (ok_response d) fc r) = Inr d"
  "fetch4DayForecast (sample_environment rt (ok_response f) r) = Inr f"
  by (simp_all add: fetchRealtimeWeather_def fetch4DayForecast_def sample_environment_def
      ok_response_def)




subsection \<open>Auxiliary facts: the current conditions\<close>

text \<open>
  A payload in which a wind-speed reading is selected never gets through the \<^verbatim>\<open>try\<close>
  block: line 247 throws, and the whole fallback record is returned. A payload without
  a wind-speed reading (the key absent, or its array empty) is formatted field by
  field, each missing reading replaced by its own default.
\<close>

lemma find_or_first_Cons: "find_or_first p (x # xs) \<noteq> None"
  by (simp add: find_or_first_def split: option.splits)

lemma find_or_first_Nil: "find_or_first p [] = None"
  by (simp add: find_or_first_def)

lemma formatCurrentWeather_try_wind_selected:
  "formatCurrentWeather_try (sample_realtime temps hums (Some (w # ws)) rains) =
     Inl ReferenceError"
  using find_or_first_Cons [of changi_area w ws]
  by (auto simp: formatCurrentWeather_try_def sample_realtime_def Let_def split: option.splits)

lemma formatCurrentWeather_wind_selected:
  "formatCurrentWeather env (sample_realtime temps hums (Some (w # ws)) rains) s =
     getFallbackCurrentWeather env s"
  by (simp add: formatCurrentWeather_def formatCurrentWeather_try_wind_selected)

lemma formatCurrentWeather_try_no_wind:
  assumes "winds = None \<or> winds = Some []"
  shows "formatCurrentWeather_try (sample_realtime temps hums winds rains) =
     Inr (currentWeatherRecord
       (case find_or_first changi_area temps of Some x \<Rightarrow> station_value x | None \<Rightarrow> 28)
       (case find_or_first changi_area hums of Some x \<Rightarrow> station_value x | None \<Rightarrow> 75)
       10
       (case find_or_first pasir_ris rains of Some x \<Rightarrow> station_value x | None \<Rightarrow> 0)
       ''2024-05-01T12:00:00+08:00'')"
  using assms
  by (auto simp: formatCurrentWeather_try_def sample_realtime_def Let_def find_or_first_Nil)

lemma formatCurrentWeather_defaults_no_wind:
  assumes "winds = None \<or> winds = Some []"
  shows "temperature (fst (formatCurrentWeather env (sample_realtime [] hums winds rains) s)) = 28"
    and "humidity (fst (formatCurrentWeather env (sample_realtime temps [] winds rains) s)) = 75"
    and "windSpeed (fst (formatCurrentWeather env (sample_realtime temps hums winds rains) s)) = 10"
    and "rainfall (fst (formatCurrentWeather env (sample_realtime temps hums winds []) s)) = 0"
  using assms
  by (simp_all add: formatCurrentWeather_def formatCurrentWeather_try_no_wind
      find_or_first_Nil currentWeatherRecord_def Math_round_def)

lemma icons_distinct:
  "distinct [icon_cloud_rain, icon_sun_rain_cloud, icon_sun, icon_sun_small_cloud,
             icon_sun_behind_cloud]"
  by (simp add: icon_cloud_rain_def icon_sun_rain_cloud_def icon_sun_def
      icon_sun_small_cloud_def icon_sun_behind_cloud_def)

text \<open>
  A record that the \<^verbatim>\<open>try\<close> block builds is built from the selected temperature and
  rainfall, and the wind speed 10.
\<close>

lemma formatCurrentWeather_try_Inr:
  assumes "formatCurrentWeather_try d = Inr w"
  shows "\<exists>t h r ts. selected_temperature d = Some t \<and> selected_rainfall d = Some r \<and>
           w = currentWeatherRecord t h 10 r ts"
  using assms
  by (auto simp: formatCurrentWeather_try_def selected_temperature_def selected_rainfall_def
      payload_readings_def Let_def split: option.splits list.splits) blast+

lemma formatCurrentWeather_Inr:
  "formatCurrentWeather_try d = Inr w \<Longrightarrow> formatCurrentWeather env d s = (w, s)"
  by (simp add: formatCurrentWeather_def)

lemma formatCurrentWeather_Inl:
  "formatCurrentWeather_try d = Inl e \<Longrightarrow>
   formatCurrentWeather env d s = getFallbackCurrentWeather env s"
  by (simp add: formatCurrentWeather_def)

lemma formatCurrentWeather_sample_no_wind:
  "formatCurrentWeather env
     (sample_realtime [\<lparr>station_id = ''S24'', station_value = t\<rparr>]
        [\<lparr>station_id = ''S24'', station_value = h\<rparr>] None
        [\<lparr>station_id = ''S64'', station_value = r\<rparr>]) s =
     (currentWeatherRecord t h 10 r ''2024-05-01T12:00:00+08:00'', s)"
  by (simp add: formatCurrentWeather_def formatCurrentWeather_try_no_wind find_or_first_def
      changi_area_def pasir_ris_def)

lemma formatCurrentWeather_rainy_icon:
  "(condition (fst (formatCurrentWeather env d s)) = ''rainy'') =
   (icon (fst (formatCurrentWeather env d s)) = icon_cloud_rain)"
proof (cases "formatCurrentWeather_try d")
  case (Inl e)
  then show ?thesis
    using icons_distinct
    by (auto simp: formatCurrentWeather_Inl getFallbackCurrentWeather_fields)
next
  case (Inr w)
  from formatCurrentWeather_try_Inr [OF Inr] obtain t h r ts
    where "w = currentWeatherRecord t h 10 r ts" by blast
  then show ?thesis
    using icons_distinct Inr
    by (auto simp: formatCurrentWeather_Inr currentWeatherRecord_def determineCondition_def
        getWeatherIcon_def)
qed

subsection \<open>The claims\<close>

text \<open>
  C4. For every temperature, humidity and rainfall, \<open>determineCondition\<close> returns
  "rainy" when rainfall > 5; otherwise "humid" when humidity > 80; otherwise "hot" when
  temperature > 32; otherwise "cool" when temperature < 26; otherwise "pleasant". The
  thresholds are the constants 5, 80, 32 and 26, tried in that order.
\<close>

theorem determineCondition_priority:
  "(r > 5 \<longrightarrow> determineCondition t h r = ''rainy'') \<and>
   (\<not> r > 5 \<and> h > 80 \<longrightarrow>
      determineCondition t h r = ''humid'') \<and>
   (\<not> r > 5 \<and> \<not> h > 80 \<and> t > 32 \<longrightarrow>
      determineCondition t h r = ''hot'') \<and>
   (\<not> r > 5 \<and> \<not> h > 80 \<and> \<not> t > 32 \<and> t < 26 \<longrightarrow>
      determineCondition t h r = ''cool'') \<and>
   (\<not> r > 5 \<and> \<not> h > 80 \<and> \<not> t > 32 \<and> \<not> t < 26 \<longrightarrow>
      determineCondition t h r = ''pleasant'')"
  by (simp add: determineCondition_def)

theorem determineCondition_priority_witness:
  "determineCondition 20 50 6 = ''rainy'' \<and>
   determineCondition 20 85 5 = ''humid'' \<and>
   determineCondition 33 80 5 = ''hot'' \<and>
   determineCondition 25 80 0 = ''cool'' \<and>
   determineCondition 26 70 0 = ''pleasant'' \<and>
   determineCondition 32 70 0 = ''pleasant''"
  using determineCondition_priority [where r = 6 and t = 20 and h = 50]
    determineCondition_priority [where r = 5 and t = 20 and h = 85]
    determineCondition_priority [where r = 5 and t = 33 and h = 80]
    determineCondition_priority [where r = 0 and t = 25 and h = 80]
    determineCondition_priority [where r = 0 and t = 26 and h = 70]
    determineCondition_priority [where r = 0 and t = 32 and h = 70]
  by simp

text \<open>
  C5, as stated: for temperature 33 and rainfall 0, \<open>determineCondition\<close> returns "hot"
  for every humidity. It does not: the humidity test comes first, so at humidity 85 the
  label is "humid".
\<close>

theorem determineCondition_33_humid_counterexample:
  "determineCondition 33 85 0 = ''humid'' \<and> determineCondition 33 85 0 \<noteq> ''hot''"
  by (simp add: determineCondition_def)

text \<open>
  C5, amended: for temperature 33, rainfall 0 and a humidity of at most 80,
  \<open>determineCondition\<close> returns "hot".
\<close>

theorem determineCondition_33_hot:
  "h \<le> 80 \<Longrightarrow> determineCondition 33 h 0 = ''hot''"
  by (simp add: determineCondition_def)

theorem determineCondition_33_hot_witness:
  "(70::real) \<le> 80 \<and> determineCondition 33 70 0 = ''hot''"
  using determineCondition_33_hot [of 70] by simp

text \<open>
  C9, as stated: \<open>calculateDistance\<close> is symmetric, returns 0 on identical coordinates,
  and on all inputs computes the haversine great-circle distance. It does not on all
  inputs: from (-12, -179) to (12, 1), two antipodal points whose haversine distance
  is \<open>\<pi>\<close> times the Earth radius, rounding makes \<open>a\<close> exceed 1 in double arithmetic,
  \<^verbatim>\<open>Math.sqrt(1 - a)\<close> is \<open>NaN\<close>, and so is the result.
\<close>

theorem calculateDistance_antipodal_counterexample:
  "calculateDistance sample_double_arithmetic (- 12) (- 179) 12 1 = None \<and>
   spec_haversine (- 12) (- 179) 12 1 = EARTH_RADIUS * pi"
  by (simp add: calculateDistance_antipodal spec_haversine_antipodal)

text \<open>
  C9, amended: in every arithmetic whose rounding commutes with negation and leaves 1
  unchanged, whose sine is odd and whose \<open>atan2\<close> is 0 at (0, 1), as double arithmetic
  is, \<open>calculateDistance\<close> is symmetric under swapping its two coordinates and returns
  0 when the two coordinates are identical. The expression it evaluates is the
  haversine formula with the Earth radius 6,371,000 m: in exact arithmetic its result
  is the haversine great-circle distance (\<open>spec_haversine\<close>) on all inputs. In double
  arithmetic it is not on all inputs: from (-12, -179) to (12, 1) the result is \<open>NaN\<close>.
\<close>

theorem calculateDistance_symmetric_zero_haversine:
  assumes "\<And>x. fp_round A (- x) = - fp_round A x"
    and "fp_round A 1 = 1"
    and "\<And>x. fp_sin A (- x) = - fp_sin A x"
    and "fp_atan2 A 0 1 = 0"
  shows "calculateDistance A lat1 lng1 lat2 lng2 = calculateDistance A lat2 lng2 lat1 lng1 \<and>
         calculateDistance A lat1 lng1 lat1 lng1 = Some 0 \<and>
         calculateDistance exact_arithmetic lat1 lng1 lat2 lng2 =
           Some (spec_haversine lat1 lng1 lat2 lng2) \<and>
         calculateDistance sample_double_arithmetic (- 12) (- 179) 12 1 = None"
proof -
  have r0: "fp_round A 0 = 0" using assms(1) [of 0] by simp
  have s0: "fp_sin A 0 = 0" using assms(3) [of 0] by simp
  have sub: "\<And>x y. fsub A x y = - fsub A y x"
    using assms(1) by (metis fsub_def minus_diff_eq)
  have mulm: "\<And>x y. fmul A (- x) y = - fmul A x y"
    using assms(1) by (simp add: fmul_def)
  have divm: "\<And>x y. fdiv A (- x) y = - fdiv A x y"
    using assms(1) by (simp add: fdiv_def)
  have sq: "\<And>x. fmul A (fp_sin A (- x)) (fp_sin A (- x)) = fmul A (fp_sin A x) (fp_sin A x)"
    using assms(3) by (simp add: fmul_def)
  have sq2: "\<And>c x. fmul A (fmul A c (fp_sin A (- x))) (fp_sin A (- x)) =
                     fmul A (fmul A c (fp_sin A x)) (fp_sin A x)"
    using assms(1,3) by (simp add: fmul_def)
  have comm: "fmul A (fp_cos A (fdiv A (fmul A lat1 (fp_pi A)) 180))
                (fp_cos A (fdiv A (fmul A lat2 (fp_pi A)) 180)) =
              fmul A (fp_cos A (fdiv A (fmul A lat2 (fp_pi A)) 180))
                (fp_cos A (fdiv A (fmul A lat1 (fp_pi A)) 180))"
    by (simp add: fmul_def mult.commute)
  have d1: "fdiv A (fdiv A (fmul A (fsub A lat1 lat2) (fp_pi A)) 180) 2 =
            - fdiv A (fdiv A (fmul A (fsub A lat2 lat1) (fp_pi A)) 180) 2"
    using sub [of lat1 lat2] by (simp add: mulm divm)
  have d2: "fdiv A (fdiv A (fmul A (fsub A lng1 lng2) (fp_pi A)) 180) 2 =
            - fdiv A (fdiv A (fmul A (fsub A lng2 lng1) (fp_pi A)) 180) 2"
    using sub [of lng1 lng2] by (simp add: mulm divm)
  have symmetric:
    "calculateDistance A lat1 lng1 lat2 lng2 = calculateDistance A lat2 lng2 lat1 lng1"
    unfolding calculateDistance_def Let_def d1 d2 sq sq2
    by (simp only: comm)
  have zero: "calculateDistance A lat1 lng1 lat1 lng1 = Some 0"
    by (simp add: calculateDistance_def Let_def fsub_def fmul_def fdiv_def fadd_def
        Math_sqrt_def r0 s0 assms(2,4))
  show ?thesis
    using symmetric zero calculateDistance_exact [of lat1 lng1 lat2 lng2]
      calculateDistance_antipodal
    by simp
qed

theorem calculateDistance_symmetric_zero_haversine_witness:
  "calculateDistance sample_double_arithmetic 1 103 2 104 =
     calculateDistance sample_double_arithmetic 2 104 1 103 \<and>
   calculateDistance sample_double_arithmetic 1 103 1 103 = Some 0 \<and>
   calculateDistance exact_arithmetic 1 103 2 104 = Some (spec_haversine 1 103 2 104) \<and>
   calculateDistance sample_double_arithmetic (- 12) (- 179) 12 1 = None"
proof -
  have h1: "\<And>x. fp_round sample_double_arithmetic (- x) = - fp_round sample_double_arithmetic x"
    by (simp add: sample_double_arithmetic_fields fl_minus)
  have h2: "fp_round sample_double_arithmetic 1 = 1"
    by (simp add: sample_double_arithmetic_fields fl_1)
  have h3: "\<And>x. fp_sin sample_double_arithmetic (- x) = - fp_sin sample_double_arithmetic x"
    by (simp add: sample_double_arithmetic_fields sample_sin_minus)
  have h4: "fp_atan2 sample_double_arithmetic 0 1 = 0"
    by (simp add: sample_double_arithmetic_fields Math_atan2_def fl_0)
  show ?thesis
    by (rule calculateDistance_symmetric_zero_haversine [OF h1 h2 h3 h4])
qed

text \<open>
  C2. Whenever either weather fetch rejects (the realtime readings or the 4-day
  forecast: a network failure, a response that is not \<^verbatim>\<open>ok\<close>, or a body that is not
  JSON), the current part of what \<open>getCurrentWeather\<close> returns has temperature 29,
  humidity 78, windSpeed 12, rainfall 0 and condition "pleasant".
\<close>

theorem getCurrentWeather_fetch_rejects:
  assumes "isl (fetchRealtimeWeather env) \<or> isl (fetch4DayForecast env)"
  shows "temperature (current (fst (getCurrentWeather env s))) = 29 \<and>
         humidity (current (fst (getCurrentWeather env s))) = 78 \<and>
         windSpeed (current (fst (getCurrentWeather env s))) = 12 \<and>
         rainfall (current (fst (getCurrentWeather env s))) = 0 \<and>
         condition (current (fst (getCurrentWeather env s))) = ''pleasant''"
  using assms
  by (simp add: getCurrentWeather_rejected current_getFallbackWeatherData
      getFallbackCurrentWeather_fields)

theorem getCurrentWeather_fetch_rejects_witness:
  "temperature (current (fst (getCurrentWeather
      (sample_environment (Inl NetworkError) (ok_response sample_forecast) 0)
      initial_state))) = 29 \<and>
   humidity (current (fst (getCurrentWeather
      (sample_environment
         (ok_response (sample_realtime
            [\<lparr>station_id = ''S24'', station_value = 304 / 10\<rparr>]
            [\<lparr>station_id = ''S24'', station_value = 70\<rparr>]
            None
            [\<lparr>station_id = ''S64'', station_value = 0\<rparr>]))
         (Inr \<lparr>ok = False, status = 503, json = Inl SyntaxError\<rparr>) 0)
      initial_state))) = 78"
proof -
  let ?env1 = "sample_environment (Inl NetworkError) (ok_response sample_forecast) 0"
  let ?env2 = "sample_environment
         (ok_response (sample_realtime
            [\<lparr>station_id = ''S24'', station_value = 304 / 10\<rparr>]
            [\<lparr>station_id = ''S24'', station_value = 70\<rparr>]
            None
            [\<lparr>station_id = ''S64'', station_value = 0\<rparr>]))
         (Inr \<lparr>ok = False, status = 503, json = Inl SyntaxError\<rparr>) 0"
  have h1: "isl (fetchRealtimeWeather ?env1) \<or> isl (fetch4DayForecast ?env1)"
    by (simp add: fetch_samples)
  have h2: "isl (fetchRealtimeWeather ?env2) \<or> isl (fetch4DayForecast ?env2)"
    by (simp add: fetch4DayForecast_def sample_environment_def)
  show ?thesis
    using getCurrentWeather_fetch_rejects [OF h1, of initial_state]
      getCurrentWeather_fetch_rejects [OF h2, of initial_state]
    by simp
qed

text \<open>
  C8. When the realtime-readings fetch succeeds and the 4-day-forecast fetch rejects,
  \<open>getCurrentWeather\<close> returns the complete fallback bundle: the fallback current
  record and the fallback forecast list. The fetched readings play no part in it.
\<close>

theorem getCurrentWeather_forecast_rejects:
  assumes "fetchRealtimeWeather env = Inr realtimeData"
    and "fetch4DayForecast env = Inl error"
  shows "getCurrentWeather env s = getFallbackWeatherData env s \<and>
         current (fst (getCurrentWeather env s)) = fst (getFallbackCurrentWeather env s) \<and>
         forecast_list (fst (getCurrentWeather env s)) =
           fst (getFallbackForecastData env (snd (getFallbackCurrentWeather env s)))"
proof -
  have "getCurrentWeather env s = getFallbackWeatherData env s"
    using assms by (simp add: getCurrentWeather_def)
  then show ?thesis
    by (simp add: current_getFallbackWeatherData forecast_list_getFallbackWeatherData)
qed

theorem getCurrentWeather_forecast_rejects_witness:
  "temperature (current (fst (getCurrentWeather
      (sample_environment
         (ok_response (sample_realtime
            [\<lparr>station_id = ''S24'', station_value = 304 / 10\<rparr>]
            [\<lparr>station_id = ''S24'', station_value = 70\<rparr>]
            None
            [\<lparr>station_id = ''S64'', station_value = 0\<rparr>]))
         (Inl NetworkError) 0)
      initial_state))) = 29 \<and>
   length (forecast_list (fst (getCurrentWeather
      (sample_environment
         (ok_response (sample_realtime
            [\<lparr>station_id = ''S24'', station_value = 304 / 10\<rparr>]
            [\<lparr>station_id = ''S24'', station_value = 70\<rparr>]
            None
            [\<lparr>station_id = ''S64'', station_value = 0\<rparr>]))
         (Inl NetworkError) 0)
      initial_state))) = 4"
proof -
  let ?d = "sample_realtime
            [\<lparr>station_id = ''S24'', station_value = 304 / 10\<rparr>]
            [\<lparr>station_id = ''S24'', station_value = 70\<rparr>]
            None
            [\<lparr>station_id = ''S64'', station_value = 0\<rparr>]"
  let ?env = "sample_environment (ok_response ?d) (Inl NetworkError) 0"
  have h1: "fetchRealtimeWeather ?env = Inr ?d" by (simp add: fetch_samples)
  have h2: "fetch4DayForecast ?env = Inl NetworkError" by (simp add: fetch_samples)
  have c: "temperature (fst (getFallbackCurrentWeather ?env initial_state)) = 29"
    by (simp add: getFallbackCurrentWeather_fields)
  have f: "length (fst (getFallbackForecastData ?env
              (snd (getFallbackCurrentWeather ?env initial_state)))) = 4"
    by (simp add: getFallbackForecastData_days)
  note r = getCurrentWeather_forecast_rejects [OF h1 h2, of initial_state]
  show ?thesis
    unfolding r [THEN conjunct2, THEN conjunct1] r [THEN conjunct2, THEN conjunct2]
    using c f by simp
qed



text \<open>
  C1. The claim: when a wind-speed reading is selected, \<open>formatCurrentWeather\<close> returns
  a record whose windSpeed is the reading's value times 3.6, rounded. The code at a
  payload with the wind reading 5 m/s at station S24: the claim gives
  \<open>Math.round(5 * 3.6) = 18\<close>, the code returns the fallback record, with windSpeed 12.
\<close>

theorem formatCurrentWeather_wind_speed_example:
  "windSpeed (fst (formatCurrentWeather
      (sample_environment (Inl NetworkError) (Inl NetworkError) 0)
      (sample_realtime
         [\<lparr>station_id = ''S24'', station_value = 304 / 10\<rparr>]
         [\<lparr>station_id = ''S24'', station_value = 70\<rparr>]
         (Some [\<lparr>station_id = ''S24'', station_value = 5\<rparr>])
         [\<lparr>station_id = ''S64'', station_value = 0\<rparr>])
      initial_state)) = 12 \<and>
   Math_round (5 * 36 / 10) = 18"
  by (simp add: formatCurrentWeather_wind_selected getFallbackCurrentWeather_fields
      Math_round_def)

text \<open>
  C10. The claim: when a reading category yields no station entry, the missing field
  gets its own default (temperature 28, humidity 75, windSpeed 10, rainfall 0) and
  the other fields come from the payload. The code at a payload whose
  \<^verbatim>\<open>air_temperature\<close> array is empty, with humidity 70 and a wind reading of 5 m/s at
  S24: the claim gives temperature 28 and humidity 70, the code returns the fallback
  record, with temperature 29 and humidity 78.
\<close>

theorem formatCurrentWeather_missing_temperature_example:
  "temperature (fst (formatCurrentWeather
      (sample_environment (Inl NetworkError) (Inl NetworkError) 0)
      (sample_realtime
         []
         [\<lparr>station_id = ''S24'', station_value = 70\<rparr>]
         (Some [\<lparr>station_id = ''S24'', station_value = 5\<rparr>])
         [\<lparr>station_id = ''S64'', station_value = 0\<rparr>])
      initial_state)) = 29 \<and>
   humidity (fst (formatCurrentWeather
      (sample_environment (Inl NetworkError) (Inl NetworkError) 0)
      (sample_realtime
         []
         [\<lparr>station_id = ''S24'', station_value = 70\<rparr>]
         (Some [\<lparr>station_id = ''S24'', station_value = 5\<rparr>])
         [\<lparr>station_id = ''S64'', station_value = 0\<rparr>])
      initial_state)) = 78"
  by (simp add: formatCurrentWeather_wind_selected getFallbackCurrentWeather_fields)

text \<open>
  C6, as stated: the icon and the advisory sentence of a current-weather record are
  functions of the condition label alone. They are not: temperatures 27 and 31, both
  at humidity 70 and rainfall 0, get the same label ("pleasant") and different icons
  and sentences.
\<close>

theorem icon_description_not_by_label_counterexample:
  "determineCondition 27 70 0 = determineCondition 31 70 0 \<and>
   icon (currentWeatherRecord 27 70 10 0 ''2024-05-01T12:00:00+08:00'') \<noteq>
   icon (currentWeatherRecord 31 70 10 0 ''2024-05-01T12:00:00+08:00'') \<and>
   description (currentWeatherRecord 27 70 10 0 ''2024-05-01T12:00:00+08:00'') \<noteq>
   description (currentWeatherRecord 31 70 10 0 ''2024-05-01T12:00:00+08:00'')"
  using icons_distinct
  by (auto simp: determineCondition_def currentWeatherRecord_def getWeatherIcon_def
      getConditionDescription_def)

text \<open>
  C6, amended: when the \<^verbatim>\<open>try\<close> block of \<open>formatCurrentWeather\<close> completes, the icon
  and the advisory sentence of the record it returns are functions of the selected
  temperature and rainfall alone, \<open>getWeatherIcon\<close> and \<open>getConditionDescription\<close> with
  their fixed thresholds: two payloads with the same selected temperature and rainfall
  get the same icon and sentence, whatever their humidity readings, timestamps and
  labels, and each is one of five fixed values. When the \<^verbatim>\<open>try\<close> block throws, the
  record is the fallback record, with the sun behind a small cloud and the sentence
  "Typical Singapore weather - great for beach cleanup!". In both cases the icon is the
  rain cloud exactly when the label is "rainy". The label alone does not determine
  them: payloads with temperatures 27 and 31, humidity 70 and rainfall 0 get the same
  label and different icons and sentences.
\<close>

theorem formatCurrentWeather_icon_description:
  "(formatCurrentWeather_try d1 = Inr w1 \<and> formatCurrentWeather_try d2 = Inr w2 \<and>
    selected_temperature d1 = selected_temperature d2 \<and>
    selected_rainfall d1 = selected_rainfall d2 \<longrightarrow>
      icon (fst (formatCurrentWeather env1 d1 s1)) = icon (fst (formatCurrentWeather env2 d2 s2)) \<and>
      description (fst (formatCurrentWeather env1 d1 s1)) =
        description (fst (formatCurrentWeather env2 d2 s2))) \<and>
   (formatCurrentWeather_try d1 = Inr w1 \<longrightarrow>
      (\<exists>t r. selected_temperature d1 = Some t \<and> selected_rainfall d1 = Some r \<and>
         fst (formatCurrentWeather env1 d1 s1) = w1 \<and>
         temperature w1 = Math_round t \<and> rainfall w1 = r \<and>
         icon w1 = getWeatherIcon r t \<and>
         description w1 = getConditionDescription t r \<and>
         icon w1 \<in> set [icon_cloud_rain, icon_sun_rain_cloud, icon_sun,
            icon_sun_small_cloud, icon_sun_behind_cloud] \<and>
         description w1 \<in> set
           [''Heavy rain - consider rescheduling cleanup'', ''Light rain - bring umbrellas!'',
            ''Very hot - stay hydrated and take breaks'', ''Great weather for beach cleanup!'',
            ''Perfect conditions for outdoor activities!''])) \<and>
   (formatCurrentWeather_try d1 = Inl e \<longrightarrow>
      icon (fst (formatCurrentWeather env1 d1 s1)) = icon_sun_small_cloud \<and>
      description (fst (formatCurrentWeather env1 d1 s1)) =
        ''Typical Singapore weather - great for beach cleanup!'') \<and>
   ((condition (fst (formatCurrentWeather env1 d1 s1)) = ''rainy'') =
    (icon (fst (formatCurrentWeather env1 d1 s1)) = icon_cloud_rain)) \<and>
   condition (fst (formatCurrentWeather env1
      (sample_realtime [\<lparr>station_id = ''S24'', station_value = 27\<rparr>]
         [\<lparr>station_id = ''S24'', station_value = 70\<rparr>] None
         [\<lparr>station_id = ''S64'', station_value = 0\<rparr>]) s1)) =
   condition (fst (formatCurrentWeather env2
      (sample_realtime [\<lparr>station_id = ''S24'', station_value = 31\<rparr>]
         [\<lparr>station_id = ''S24'', station_value = 70\<rparr>] None
         [\<lparr>station_id = ''S64'', station_value = 0\<rparr>]) s2)) \<and>
   icon (fst (formatCurrentWeather env1
      (sample_realtime [\<lparr>station_id = ''S24'', station_value = 27\<rparr>]
         [\<lparr>station_id = ''S24'', station_value = 70\<rparr>] None
         [\<lparr>station_id = ''S64'', station_value = 0\<rparr>]) s1)) \<noteq>
   icon (fst (formatCurrentWeather env2
      (sample_realtime [\<lparr>station_id = ''S24'', station_value = 31\<rparr>]
         [\<lparr>station_id = ''S24'', station_value = 70\<rparr>] None
         [\<lparr>station_id = ''S64'', station_value = 0\<rparr>]) s2)) \<and>
   description (fst (formatCurrentWeather env1
      (sample_realtime [\<lparr>station_id = ''S24'', station_value = 27\<rparr>]
         [\<lparr>station_id = ''S24'', station_value = 70\<rparr>] None
         [\<lparr>station_id = ''S64'', station_value = 0\<rparr>]) s1)) \<noteq>
   description (fst (formatCurrentWeather env2
      (sample_realtime [\<lparr>station_id = ''S24'', station_value = 31\<rparr>]
         [\<lparr>station_id = ''S24'', station_value = 70\<rparr>] None
         [\<lparr>station_id = ''S64'', station_value = 0\<rparr>]) s2))"
proof (intro conjI impI)
  assume a: "formatCurrentWeather_try d1 = Inr w1 \<and> formatCurrentWeather_try d2 = Inr w2 \<and>
    selected_temperature d1 = selected_temperature d2 \<and>
    selected_rainfall d1 = selected_rainfall d2"
  from a formatCurrentWeather_try_Inr [of d1 w1] obtain t h r ts
    where 1: "selected_temperature d1 = Some t" "selected_rainfall d1 = Some r"
      "w1 = currentWeatherRecord t h 10 r ts" by blast
  from a formatCurrentWeather_try_Inr [of d2 w2] obtain t' h' r' ts'
    where 2: "selected_temperature d2 = Some t'" "selected_rainfall d2 = Some r'"
      "w2 = currentWeatherRecord t' h' 10 r' ts'" by blast
  from a 1 2 have eq: "t' = t" "r' = r" by simp_all
  show "icon (fst (formatCurrentWeather env1 d1 s1)) = icon (fst (formatCurrentWeather env2 d2 s2))"
    using a 1 2 eq by (simp add: formatCurrentWeather_Inr currentWeatherRecord_def)
  show "description (fst (formatCurrentWeather env1 d1 s1)) =
        description (fst (formatCurrentWeather env2 d2 s2))"
    using a 1 2 eq by (simp add: formatCurrentWeather_Inr currentWeatherRecord_def)
next
  assume a: "formatCurrentWeather_try d1 = Inr w1"
  from formatCurrentWeather_try_Inr [OF a] obtain t h r ts
    where 1: "selected_temperature d1 = Some t" "selected_rainfall d1 = Some r"
      "w1 = currentWeatherRecord t h 10 r ts" by blast
  show "\<exists>t r. selected_temperature d1 = Some t \<and> selected_rainfall d1 = Some r \<and>
         fst (formatCurrentWeather env1 d1 s1) = w1 \<and>
         temperature w1 = Math_round t \<and> rainfall w1 = r \<and>
         icon w1 = getWeatherIcon r t \<and>
         description w1 = getConditionDescription t r \<and>
         icon w1 \<in> set [icon_cloud_rain, icon_sun_rain_cloud, icon_sun,
            icon_sun_small_cloud, icon_sun_behind_cloud] \<and>
         description w1 \<in> set
           [''Heavy rain - consider rescheduling cleanup'', ''Light rain - bring umbrellas!'',
            ''Very hot - stay hydrated and take breaks'', ''Great weather for beach cleanup!'',
            ''Perfect conditions for outdoor activities!'']"
    using a 1
    by (auto simp: formatCurrentWeather_Inr currentWeatherRecord_def getWeatherIcon_def
        getConditionDescription_def)
next
  assume a: "formatCurrentWeather_try d1 = Inl e"
  show "icon (fst (formatCurrentWeather env1 d1 s1)) = icon_sun_small_cloud"
    using a by (simp add: formatCurrentWeather_Inl getFallbackCurrentWeather_fields)
  show "description (fst (formatCurrentWeather env1 d1 s1)) =
        ''Typical Singapore weather - great for beach cleanup!''"
    using a by (simp add: formatCurrentWeather_Inl getFallbackCurrentWeather_fields)
next
  show "(condition (fst (formatCurrentWeather env1 d1 s1)) = ''rainy'') =
    (icon (fst (formatCurrentWeather env1 d1 s1)) = icon_cloud_rain)"
    by (rule formatCurrentWeather_rainy_icon)
next
  show "condition (fst (formatCurrentWeather env1
      (sample_realtime [\<lparr>station_id = ''S24'', station_value = 27\<rparr>]
         [\<lparr>station_id = ''S24'', station_value = 70\<rparr>] None
         [\<lparr>station_id = ''S64'', station_value = 0\<rparr>]) s1)) =
condition (fst (formatCurrentWeather env2
      (sample_realtime [\<lparr>station_id = ''S24'', station_value = 31\<rparr>]
         [\<lparr>station_id = ''S24'', station_value = 70\<rparr>] None
         [\<lparr>station_id = ''S64'', station_value = 0\<rparr>]) s2))"
    by (simp add: formatCurrentWeather_sample_no_wind currentWeatherRecord_def
        determineCondition_def)
next
  show "icon (fst (formatCurrentWeather env1
      (sample_realtime [\<lparr>station_id = ''S24'', station_value = 27\<rparr>]
         [\<lparr>station_id = ''S24'', station_value = 70\<rparr>] None
         [\<lparr>station_id = ''S64'', station_value = 0\<rparr>]) s1)) \<noteq>
icon (fst (formatCurrentWeather env2
      (sample_realtime [\<lparr>station_id = ''S24'', station_value = 31\<rparr>]
         [\<lparr>station_id = ''S24'', station_value = 70\<rparr>] None
         [\<lparr>station_id = ''S64'', station_value = 0\<rparr>]) s2))"
    using icons_distinct
    by (auto simp: formatCurrentWeather_sample_no_wind currentWeatherRecord_def
        getWeatherIcon_def)
next
  show "description (fst (formatCurrentWeather env1
      (sample_realtime [\<lparr>station_id = ''S24'', station_value = 27\<rparr>]
         [\<lparr>station_id = ''S24'', station_value = 70\<rparr>] None
         [\<lparr>station_id = ''S64'', station_value = 0\<rparr>]) s1)) \<noteq>
description (fst (formatCurrentWeather env2
      (sample_realtime [\<lparr>station_id = ''S24'', station_value = 31\<rparr>]
         [\<lparr>station_id = ''S24'', station_value = 70\<rparr>] None
         [\<lparr>station_id = ''S64'', station_value = 0\<rparr>]) s2))"
    by (simp add: formatCurrentWeather_sample_no_wind currentWeatherRecord_def
        getConditionDescription_def)
qed

theorem formatCurrentWeather_icon_description_witness:
  "condition (fst (formatCurrentWeather
      (sample_environment (Inl NetworkError) (Inl NetworkError) 0)
      (sample_realtime
         [\<lparr>station_id = ''S24'', station_value = 29\<rparr>]
         [\<lparr>station_id = ''S24'', station_value = 70\<rparr>]
         None
         [\<lparr>station_id = ''S64'', station_value = 0\<rparr>])
      initial_state)) = ''pleasant'' \<and>
   condition (fst (formatCurrentWeather
      (sample_environment (Inl NetworkError) (Inl NetworkError) 0)
      (sample_realtime
         [\<lparr>station_id = ''S24'', station_value = 29\<rparr>]
         [\<lparr>station_id = ''S24'', station_value = 90\<rparr>]
         (Some [])
         [\<lparr>station_id = ''S64'', station_value = 0\<rparr>])
      initial_state)) = ''humid'' \<and>
   icon (fst (formatCurrentWeather
      (sample_environment (Inl NetworkError) (Inl NetworkError) 0)
      (sample_realtime
         [\<lparr>station_id = ''S24'', station_value = 29\<rparr>]
         [\<lparr>station_id = ''S24'', station_value = 70\<rparr>]
         None
         [\<lparr>station_id = ''S64'', station_value = 0\<rparr>])
      initial_state)) =
   icon (fst (formatCurrentWeather
      (sample_environment (Inl NetworkError) (Inl NetworkError) 0)
      (sample_realtime
         [\<lparr>station_id = ''S24'', station_value = 29\<rparr>]
         [\<lparr>station_id = ''S24'', station_value = 90\<rparr>]
         (Some [])
         [\<lparr>station_id = ''S64'', station_value = 0\<rparr>])
      initial_state)) \<and>
   description (fst (formatCurrentWeather
      (sample_environment (Inl NetworkError) (Inl NetworkError) 0)
      (sample_realtime
         [\<lparr>station_id = ''S24'', station_value = 29\<rparr>]
         [\<lparr>station_id = ''S24'', station_value = 70\<rparr>]
         None
         [\<lparr>station_id = ''S64'', station_value = 0\<rparr>])
      initial_state)) =
   description (fst (formatCurrentWeather
      (sample_environment (Inl NetworkError) (Inl NetworkError) 0)
      (sample_realtime
         [\<lparr>station_id = ''S24'', station_value = 29\<rparr>]
         [\<lparr>station_id = ''S24'', station_value = 90\<rparr>]
         (Some [])
         [\<lparr>station_id = ''S64'', station_value = 0\<rparr>])
      initial_state)) \<and>
   description (fst (formatCurrentWeather
      (sample_environment (Inl NetworkError) (Inl NetworkError) 0)
      \<lparr>realtime_items = None\<rparr>
      initial_state)) = ''Typical Singapore weather - great for beach cleanup!''"
proof -
  let ?env = "sample_environment (Inl NetworkError) (Inl NetworkError) 0"
  let ?d1 = "sample_realtime
         [\<lparr>station_id = ''S24'', station_value = 29\<rparr>]
         [\<lparr>station_id = ''S24'', station_value = 70\<rparr>]
         None
         [\<lparr>station_id = ''S64'', station_value = 0\<rparr>]"
  let ?d2 = "sample_realtime
         [\<lparr>station_id = ''S24'', station_value = 29\<rparr>]
         [\<lparr>station_id = ''S24'', station_value = 90\<rparr>]
         (Some [])
         [\<lparr>station_id = ''S64'', station_value = 0\<rparr>]"
  let ?d3 = "\<lparr>realtime_items = None\<rparr>"
  let ?w1 = "currentWeatherRecord 29 70 10 0 ''2024-05-01T12:00:00+08:00''"
  let ?w2 = "currentWeatherRecord 29 90 10 0 ''2024-05-01T12:00:00+08:00''"
  have t1: "formatCurrentWeather_try ?d1 = Inr ?w1"
    by (simp add: formatCurrentWeather_try_no_wind find_or_first_def changi_area_def
        pasir_ris_def)
  have t2: "formatCurrentWeather_try ?d2 = Inr ?w2"
    by (simp add: formatCurrentWeather_try_no_wind find_or_first_def changi_area_def
        pasir_ris_def)
  have t3: "formatCurrentWeather_try ?d3 = Inl TypeError"
    by (simp add: formatCurrentWeather_try_def)
  have s: "selected_temperature ?d1 = selected_temperature ?d2"
      "selected_rainfall ?d1 = selected_rainfall ?d2"
    by (simp_all add: selected_temperature_def selected_rainfall_def payload_readings_def
        sample_realtime_def)
  note same = formatCurrentWeather_icon_description
      [of ?d1 ?w1 ?d2 ?w2 ?env initial_state ?env initial_state,
        THEN conjunct1, rule_format, OF conjI [OF t1 conjI [OF t2 conjI [OF s]]]]
  note fallback = formatCurrentWeather_icon_description
      [of ?d3 _ _ _ ?env initial_state _ _ TypeError,
        THEN conjunct2, THEN conjunct2, THEN conjunct1, rule_format, OF t3]
  have c1: "condition (fst (formatCurrentWeather ?env ?d1 initial_state)) = ''pleasant''"
    using t1 by (simp add: formatCurrentWeather_def currentWeatherRecord_def
        determineCondition_def)
  have c2: "condition (fst (formatCurrentWeather ?env ?d2 initial_state)) = ''humid''"
    using t2 by (simp add: formatCurrentWeather_def currentWeatherRecord_def
        determineCondition_def)
  show ?thesis
    using same fallback c1 c2 by blast
qed

text \<open>
  C7, as stated: \<open>getCurrentPosition\<close> never rejects, and resolves with the fallback
  coordinate also when the geolocation capability is absent. It does not: without the
  capability the promise is rejected with \<^verbatim>\<open>Error('Geolocation not supported')\<close>.
\<close>

theorem getCurrentPosition_absent_counterexample:
  "fst (getCurrentPosition \<lparr>geolocation = None\<rparr> empty_storage) =
     Inl (Error ''Geolocation not supported'') \<and>
   fst (getCurrentPosition \<lparr>geolocation = None\<rparr> empty_storage) \<noteq>
     Inr DEFAULT_LOCATION"
  by (simp add: getCurrentPosition_def)

text \<open>
  C7, amended: when the browser answers with an error (permission denied, position
  unavailable, or the timeout of the 10 s the request allows), \<open>getCurrentPosition\<close>
  resolves with the fallback coordinate (lat 1.381497, lng 103.955574), and with the
  capability present it never rejects. When the capability is absent it rejects with
  \<^verbatim>\<open>Error('Geolocation not supported')\<close>, and its caller \<open>loadUserLocation\<close> catches
  the rejection and takes the same fallback coordinate.
\<close>

theorem getCurrentPosition_fallback:
  "(\<forall>api e. geolocation nav = Some api \<and>
      api \<lparr>enableHighAccuracy = True, timeout_ms = 10000, maximumAge = 300000\<rparr> =
        PositionError e \<longrightarrow>
      getCurrentPosition nav st = (Inr DEFAULT_LOCATION, st)) \<and>
   (geolocation nav = None \<longrightarrow>
      getCurrentPosition nav st = (Inl (Error ''Geolocation not supported''), st) \<and>
      loadUserLocation nav st = (DEFAULT_LOCATION, st)) \<and>
   (geolocation nav \<noteq> None \<longrightarrow> \<not> isl (fst (getCurrentPosition nav st))) \<and>
   lat DEFAULT_LOCATION = 1381497 / 1000000 \<and>
   lng DEFAULT_LOCATION = 103955574 / 1000000"
  by (auto simp: getCurrentPosition_def loadUserLocation_def DEFAULT_LOCATION_def
      setLocalStorage_def Let_def split_def split: geolocation_answer.splits)

theorem getCurrentPosition_fallback_witness:
  "fst (getCurrentPosition
      \<lparr>geolocation = Some (\<lambda>options.
          PositionError \<lparr>error_code = PERMISSION_DENIED, message = ''User denied Geolocation''\<rparr>)\<rparr>
      empty_storage) = Inr DEFAULT_LOCATION \<and>
   fst (getCurrentPosition
      \<lparr>geolocation = Some (\<lambda>options.
          if timeout_ms options \<le> 10000
          then PositionError \<lparr>error_code = TIMEOUT, message = ''Timeout expired''\<rparr>
          else Position \<lparr>latitude = 1, longitude = 104, coords_accuracy = 20\<rparr>)\<rparr>
      empty_storage) = Inr DEFAULT_LOCATION \<and>
   fst (getCurrentPosition \<lparr>geolocation = None\<rparr> empty_storage) =
     Inl (Error ''Geolocation not supported'') \<and>
   fst (loadUserLocation \<lparr>geolocation = None\<rparr> empty_storage) =
     DEFAULT_LOCATION"
proof -
  let ?denied = "\<lambda>options :: position_options.
          PositionError \<lparr>error_code = PERMISSION_DENIED, message = ''User denied Geolocation''\<rparr>"
  let ?slow = "\<lambda>options.
          if timeout_ms options \<le> 10000
          then PositionError \<lparr>error_code = TIMEOUT, message = ''Timeout expired''\<rparr>
          else Position \<lparr>latitude = 1, longitude = 104, coords_accuracy = 20\<rparr>"
  let ?st = empty_storage
  note a = getCurrentPosition_fallback [of "\<lparr>geolocation = Some ?denied\<rparr>" ?st,
      THEN conjunct1, rule_format, of ?denied]
  note b = getCurrentPosition_fallback [of "\<lparr>geolocation = Some ?slow\<rparr>" ?st,
      THEN conjunct1, rule_format, of ?slow]
  note c = getCurrentPosition_fallback [of "\<lparr>geolocation = None\<rparr>" ?st,
      THEN conjunct2, THEN conjunct1, rule_format]
  have "getCurrentPosition \<lparr>geolocation = Some ?denied\<rparr> ?st = (Inr DEFAULT_LOCATION, ?st)"
    by (rule a) simp
  moreover have "getCurrentPosition \<lparr>geolocation = Some ?slow\<rparr> ?st = (Inr DEFAULT_LOCATION, ?st)"
    by (rule b) simp
  moreover have "getCurrentPosition \<lparr>geolocation = None\<rparr> ?st =
       (Inl (Error ''Geolocation not supported''), ?st) \<and>
     loadUserLocation \<lparr>geolocation = None\<rparr> ?st = (DEFAULT_LOCATION, ?st)"
    by (rule c) simp
  ultimately show ?thesis by simp
qed

end
